theory Spec2Isabelle
  imports Main
begin

section \<open>Values, errors and effects\<close>

text \<open>
  The repository is an abstract file system layer written in TypeScript. Every operation
  is an \<^verbatim>\<open>async\<close> method: it may reject with an error, it calls the abstract
  primitives of a backend (\<^verbatim>\<open>_head\<close>, \<^verbatim>\<open>_list\<close>, ...) and the
  optional callbacks of a hook object. The embedding makes all of this explicit:
  an operation is a function from a state to a result and a new state, a rejection is
  the left injection of a sum, and every call of a primitive or of a hook is appended to
  a trace, so that "the primitive is never invoked" is a statement about the trace.
\<close>

type_synonym path = string

type_synonym bytes = "nat list"

datatype error_name =
    NotFoundError | PathExistsError | InvalidModificationError | NotReadableError
  | NoModificationAllowedError | TypeMismatchError | SecurityError | SyntaxError
  | NotSupportedError | RangeError | BackendError

text \<open>An error object: \<^verbatim>\<open>new NotFoundError(repository, path)\<close>;
  \<^verbatim>\<open>e instanceof NotFoundError\<close> and \<^verbatim>\<open>e.name === NotFoundError.name\<close>
  are tests of \<open>err_name\<close>. \<open>BackendError\<close> is the name of an error that a backend
  threw and that is none of the kinds of the layer.\<close>

datatype error = Error (err_name: error_name) (err_repository: string) (err_path: path)

text \<open>\<^verbatim>\<open>interface Stats { size?: number; accessed?: number; modified?: number }\<close>:
  an absent field is \<open>None\<close>.\<close>

record stats =
  stats_size :: "nat option"
  accessed :: "nat option"
  modified :: "nat option"

text \<open>The \<^verbatim>\<open>Stats\<close> \<^verbatim>\<open>{}\<close>.\<close>

definition no_stats :: stats where
  "no_stats = \<lparr>stats_size = None, accessed = None, modified = None\<rparr>"

text \<open>The option objects of the operations (\<^verbatim>\<open>HeadOptions\<close>,
  \<^verbatim>\<open>OpenOptions\<close>, \<^verbatim>\<open>OpenWriteOptions\<close>, ...) share their fields.
  \<^verbatim>\<open>ignoreHook\<close> is only ever tested for truthiness, so \<^verbatim>\<open>undefined\<close> is
  \<open>False\<close>; \<^verbatim>\<open>create\<close> is compared with \<^verbatim>\<open>=== true\<close> and
  \<^verbatim>\<open>=== false\<close>, so it keeps its three values.\<close>

record options =
  ignoreHook :: bool
  create :: "bool option"
  bufferSize :: "nat option"

definition no_options :: options where
  "no_options = \<lparr>ignoreHook = False, create = None, bufferSize = None\<rparr>"

text \<open>What a JavaScript expression can hold where the code passes buffers around: a
  buffer, \<^verbatim>\<open>null\<close>, \<^verbatim>\<open>undefined\<close>, or the promise of a call that was
  not awaited.\<close>

datatype jsval = JSnull | JSundefined | JSpromise | JSbuffer bytes

text \<open>\<^verbatim>\<open>v == null\<close> (loose equality): true of \<^verbatim>\<open>null\<close> and
  \<^verbatim>\<open>undefined\<close> only.\<close>

definition loose_eq_null :: "jsval \<Rightarrow> bool" where
  "loose_eq_null v = (v = JSnull \<or> v = JSundefined)"

text \<open>Truthiness of an optional number, as in \<^verbatim>\<open>stats.size ? a : b\<close>:
  \<^verbatim>\<open>undefined\<close> and \<^verbatim>\<open>0\<close> are falsy.\<close>

definition truthy_number :: "nat option \<Rightarrow> bool" where
  "truthy_number n = (case n of None \<Rightarrow> False | Some k \<Rightarrow> k \<noteq> 0)"

text \<open>The handles of the class hierarchy: \<^verbatim>\<open>fso instanceof AbstractFile\<close> is a
  test of the constructor.\<close>

datatype fso = AbstractFile (fso_path: path) | AbstractDirectory (fso_path: path)

datatype XmitError = XmitError (xe_from: fso) (xe_to: fso) (xe_error: error)

text \<open>Stream objects: the entry they belong to, the options they were opened with and
  the flag \<^verbatim>\<open>handled\<close>.\<close>

record ReadStream =
  rs_path :: path
  rs_options :: options
  rs_handled :: bool

record WriteStream =
  ws_path :: path
  ws_options :: options
  ws_handled :: bool

datatype hook_id =
    BeforeHead | AfterHead | BeforeDelete | AfterDelete | BeforeList | AfterList
  | BeforeMkcol | AfterMkcol | BeforeGet | AfterGet | BeforePost | AfterPost
  | BeforePut | AfterPut | BeforePatch | AfterPatch

datatype prim_id =
    PrimHead | PrimDelete | PrimList | PrimMkcol | PrimOpenReadStream | PrimOpenWriteStream
  | PrimRead | PrimWrite | PrimTruncate | PrimSeek | PrimCloseRead | PrimCloseWrite
  | PrimGetSource | PrimPatch

datatype event = Hook hook_id path | Prim prim_id path

text \<open>The state: the backend's own state (of any type), the trace of calls, and the
  array \<^verbatim>\<open>copyErrors\<close> that \<^verbatim>\<open>copy\<close>/\<^verbatim>\<open>move\<close> allocate and
  every \<^verbatim>\<open>_xmit\<close> of the walk shares.\<close>

record 'b state =
  backend :: 'b
  trace :: "event list"
  copyErrors :: "XmitError list"

type_synonym ('b, 'a) call = "'b \<Rightarrow> (error + 'a) \<times> 'b"

type_synonym ('b, 'a) io = "'b state \<Rightarrow> (error + 'a) \<times> 'b state"

definition ret :: "'a \<Rightarrow> ('b, 'a) io" where
  "ret x = (\<lambda>s. (Inr x, s))"

definition throw :: "error \<Rightarrow> ('b, 'a) io" where
  "throw e = (\<lambda>s. (Inl e, s))"

text \<open>\<^verbatim>\<open>const x = await m; f(x)\<close>\<close>

definition bnd :: "('b, 'a) io \<Rightarrow> ('a \<Rightarrow> ('b, 'c) io) \<Rightarrow> ('b, 'c) io" where
  "bnd m f = (\<lambda>s. case m s of (Inl e, s') \<Rightarrow> (Inl e, s') | (Inr x, s') \<Rightarrow> f x s')"

text \<open>\<^verbatim>\<open>try { m } catch (e) { h(e) }\<close>\<close>

definition try_catch :: "('b, 'a) io \<Rightarrow> (error \<Rightarrow> ('b, 'a) io) \<Rightarrow> ('b, 'a) io" where
  "try_catch m h = (\<lambda>s. case m s of (Inl e, s') \<Rightarrow> h e s' | (Inr x, s') \<Rightarrow> (Inr x, s'))"

text \<open>A call of an \<^verbatim>\<open>async\<close> method that is not awaited: the call is made, the
  caller goes on with the promise, and a rejection never reaches the caller. The
  embedding runs the effects of the call in place.\<close>

definition not_awaited :: "('b, 'a) io \<Rightarrow> ('b, jsval) io" where
  "not_awaited m = (\<lambda>s. (Inr JSpromise, snd (m s)))"

definition prim :: "prim_id \<Rightarrow> path \<Rightarrow> ('b, 'a) call \<Rightarrow> ('b, 'a) io" where
  "prim i p f = (\<lambda>s. case f (backend s) of (r, b') \<Rightarrow>
     (r, s\<lparr>backend := b', trace := trace s @ [Prim i p]\<rparr>))"

definition hook_call :: "hook_id \<Rightarrow> path \<Rightarrow> ('b, 'a) call \<Rightarrow> ('b, 'a) io" where
  "hook_call i p f = (\<lambda>s. case f (backend s) of (r, b') \<Rightarrow>
     (r, s\<lparr>backend := b', trace := trace s @ [Hook i p]\<rparr>))"

section \<open>The hook object and the file system (core.ts)\<close>

text \<open>\<^verbatim>\<open>Props\<close>, the named properties that \<^verbatim>\<open>patch\<close> is given; the layer
  only passes them on.\<close>

type_synonym props = "(string \<times> nat) list"

text \<open>\<^verbatim>\<open>options.hook\<close>: every callback is optional. A callback is any function of
  its arguments and the backend state.\<close>

record 'b hook =
  beforeHead :: "(path \<Rightarrow> options \<Rightarrow> ('b, stats option) call) option"
  afterHead :: "(path \<Rightarrow> stats \<Rightarrow> ('b, unit) call) option"
  beforeDelete :: "(path \<Rightarrow> options \<Rightarrow> ('b, bool) call) option"
  afterDelete :: "(path \<Rightarrow> ('b, unit) call) option"
  beforeList :: "(path \<Rightarrow> options \<Rightarrow> ('b, path list option) call) option"
  afterList :: "(path \<Rightarrow> path list \<Rightarrow> ('b, unit) call) option"
  beforeMkcol :: "(path \<Rightarrow> options \<Rightarrow> ('b, bool) call) option"
  afterMkcol :: "(path \<Rightarrow> ('b, unit) call) option"
  beforeGet :: "(path \<Rightarrow> options \<Rightarrow> ('b, ReadStream option) call) option"
  afterGet :: "(path \<Rightarrow> ('b, unit) call) option"
  beforePost :: "(path \<Rightarrow> options \<Rightarrow> ('b, WriteStream option) call) option"
  afterPost :: "(path \<Rightarrow> ('b, unit) call) option"
  beforePut :: "(path \<Rightarrow> options \<Rightarrow> ('b, WriteStream option) call) option"
  afterPut :: "(path \<Rightarrow> ('b, unit) call) option"
  beforePatch :: "(path \<Rightarrow> props \<Rightarrow> options \<Rightarrow> ('b, bool) call) option"
  afterPatch :: "(path \<Rightarrow> ('b, unit) call) option"

text \<open>A file system: the repository name, the hook object and the abstract methods a
  backend implements. The primitives of the stream classes are keyed by the path of the
  entry the stream belongs to.\<close>

record 'b filesystem =
  fs_repository :: string
  fs_hook :: "'b hook"
  prim_head :: "path \<Rightarrow> options \<Rightarrow> ('b, stats) call"
  prim_delete :: "path \<Rightarrow> options \<Rightarrow> ('b, unit) call"
  prim_list :: "path \<Rightarrow> options \<Rightarrow> ('b, path list) call"
  prim_mkcol :: "path \<Rightarrow> options \<Rightarrow> ('b, unit) call"
  prim_openReadStream :: "path \<Rightarrow> options \<Rightarrow> ('b, unit) call"
  prim_openWriteStream :: "path \<Rightarrow> options \<Rightarrow> ('b, unit) call"
  prim_read :: "path \<Rightarrow> nat option \<Rightarrow> ('b, jsval) call"
  prim_write :: "path \<Rightarrow> jsval \<Rightarrow> ('b, unit) call"
  prim_closeRead :: "path \<Rightarrow> ('b, unit) call"
  prim_closeWrite :: "path \<Rightarrow> ('b, unit) call"
  prim_patch :: "path \<Rightarrow> props \<Rightarrow> options \<Rightarrow> ('b, unit) call"

subsection \<open>AbstractFileSystem.head\<close>

text \<open>
  \<^verbatim>\<open>
  public async head(path: string, options: HeadOptions = {}): Promise<Stats> {
    let stats: Stats | null | undefined;
    if (!options.ignoreHook && this.beforeHead) {
      stats = await this.beforeHead(path, options);
    }
    if (!stats) {
      stats = await this._head(path, options);
    }
    if (!options.ignoreHook && this.afterHead) {
      await this.afterHead(path, stats);
    }
    return stats;
  }
  \<close>
  A \<^verbatim>\<open>Stats\<close> is an object, so \<^verbatim>\<open>!stats\<close> holds exactly when the hook gave
  \<^verbatim>\<open>null\<close> or was not called. \<open>before_head\<close> is the first statement,
  \<open>head_stats\<close> the method up to the point where \<^verbatim>\<open>stats\<close> is known, and
  \<open>head\<close> the whole method.
\<close>

definition before_head :: "'b filesystem \<Rightarrow> path \<Rightarrow> options \<Rightarrow> ('b, stats option) io" where
  "before_head fs p opts =
     (if ignoreHook opts then ret None
      else (case beforeHead (fs_hook fs) of
              None \<Rightarrow> ret None
            | Some h \<Rightarrow> hook_call BeforeHead p (h p opts)))"

definition head_stats :: "'b filesystem \<Rightarrow> path \<Rightarrow> options \<Rightarrow> ('b, stats) io" where
  "head_stats fs p opts =
     bnd (before_head fs p opts)
       (\<lambda>hooked.
          case hooked of
            None \<Rightarrow> prim PrimHead p (prim_head fs p opts)
          | Some st \<Rightarrow> ret st)"

definition head :: "'b filesystem \<Rightarrow> path \<Rightarrow> options \<Rightarrow> ('b, stats) io" where
  "head fs p opts =
     bnd (head_stats fs p opts)
       (\<lambda>st.
     bnd (if ignoreHook opts then ret ()
          else (case afterHead (fs_hook fs) of
                  None \<Rightarrow> ret ()
                | Some h \<Rightarrow> hook_call AfterHead p (h p st)))
       (\<lambda>u. ret st))"

subsection \<open>AbstractFileSystem.delete, AbstractDirectory.list and mkcol\<close>

text \<open>
  \<^verbatim>\<open>
  public async delete(path: string, options: DeleteOptions = {}): Promise<void> {
    if (!options.ignoreHook && this.beforeDelete) {
      if (await this.beforeDelete(path, options)) {
        return;
      }
    }
    await this._delete(path, options);
    if (!options.ignoreHook && this.afterDelete) {
      await this.afterDelete(path);
    }
  }
  \<close>
  \<^verbatim>\<open>mkcol\<close> has the same shape; \<^verbatim>\<open>list\<close> has the shape of
  \<^verbatim>\<open>head\<close> (an array is an object, so \<^verbatim>\<open>!list\<close> holds only for
  \<^verbatim>\<open>null\<close> and \<^verbatim>\<open>undefined\<close>). \<open>before_delete\<close>, \<open>before_mkcol\<close>
  and \<open>before_list\<close> are the first statement of each method, and \<open>list_result\<close>
  is \<^verbatim>\<open>list\<close> up to the point where the list is known.
\<close>

definition before_delete :: "'b filesystem \<Rightarrow> path \<Rightarrow> options \<Rightarrow> ('b, bool) io" where
  "before_delete fs p opts =
     (if ignoreHook opts then ret False
      else (case beforeDelete (fs_hook fs) of
              None \<Rightarrow> ret False
            | Some h \<Rightarrow> hook_call BeforeDelete p (h p opts)))"

definition delete :: "'b filesystem \<Rightarrow> path \<Rightarrow> options \<Rightarrow> ('b, unit) io" where
  "delete fs p opts =
     bnd (before_delete fs p opts)
       (\<lambda>handled.
     if handled then ret ()
     else bnd (prim PrimDelete p (prim_delete fs p opts))
       (\<lambda>u.
          if ignoreHook opts then ret ()
          else (case afterDelete (fs_hook fs) of
                  None \<Rightarrow> ret ()
                | Some h \<Rightarrow> hook_call AfterDelete p (h p))))"

definition before_mkcol :: "'b filesystem \<Rightarrow> path \<Rightarrow> options \<Rightarrow> ('b, bool) io" where
  "before_mkcol fs p opts =
     (if ignoreHook opts then ret False
      else (case beforeMkcol (fs_hook fs) of
              None \<Rightarrow> ret False
            | Some h \<Rightarrow> hook_call BeforeMkcol p (h p opts)))"

definition mkcol :: "'b filesystem \<Rightarrow> path \<Rightarrow> options \<Rightarrow> ('b, unit) io" where
  "mkcol fs p opts =
     bnd (before_mkcol fs p opts)
       (\<lambda>handled.
     if handled then ret ()
     else bnd (prim PrimMkcol p (prim_mkcol fs p opts))
       (\<lambda>u.
          if ignoreHook opts then ret ()
          else (case afterMkcol (fs_hook fs) of
                  None \<Rightarrow> ret ()
                | Some h \<Rightarrow> hook_call AfterMkcol p (h p))))"

definition before_list :: "'b filesystem \<Rightarrow> path \<Rightarrow> options \<Rightarrow> ('b, path list option) io" where
  "before_list fs p opts =
     (if ignoreHook opts then ret None
      else (case beforeList (fs_hook fs) of
              None \<Rightarrow> ret None
            | Some h \<Rightarrow> hook_call BeforeList p (h p opts)))"

definition list_result :: "'b filesystem \<Rightarrow> path \<Rightarrow> options \<Rightarrow> ('b, path list) io" where
  "list_result fs p opts =
     bnd (before_list fs p opts)
       (\<lambda>hooked.
          case hooked of
            None \<Rightarrow> prim PrimList p (prim_list fs p opts)
          | Some l \<Rightarrow> ret l)"

definition list_dir :: "'b filesystem \<Rightarrow> path \<Rightarrow> options \<Rightarrow> ('b, path list) io" where
  "list_dir fs p opts =
     bnd (list_result fs p opts)
       (\<lambda>l.
     bnd (if ignoreHook opts then ret ()
          else (case afterList (fs_hook fs) of
                  None \<Rightarrow> ret ()
                | Some h \<Rightarrow> hook_call AfterList p (h p l)))
       (\<lambda>u. ret l))"

text \<open>
  \<^verbatim>\<open>
  public async patch(path: string, props: Props, options: PatchOptions = {}): Promise<void> {
    if (this.beforePatch) {
      if (await this.beforePatch(path, props, options)) {
        return;
      }
    }
    await this._patch(path, props, options);
    if (this.afterPatch) {
      await this.afterPatch(path);
    }
  }
  \<close>
  \<^verbatim>\<open>patch\<close> does not look at \<^verbatim>\<open>ignoreHook\<close>.
\<close>

definition before_patch :: "'b filesystem \<Rightarrow> path \<Rightarrow> props \<Rightarrow> options \<Rightarrow> ('b, bool) io" where
  "before_patch fs p pr opts =
     (case beforePatch (fs_hook fs) of
        None \<Rightarrow> ret False
      | Some h \<Rightarrow> hook_call BeforePatch p (h p pr opts))"

definition patch :: "'b filesystem \<Rightarrow> path \<Rightarrow> props \<Rightarrow> options \<Rightarrow> ('b, unit) io" where
  "patch fs p pr opts =
     bnd (before_patch fs p pr opts)
       (\<lambda>handled.
     if handled then ret ()
     else bnd (prim PrimPatch p (prim_patch fs p pr opts))
       (\<lambda>u.
          case afterPatch (fs_hook fs) of
            None \<Rightarrow> ret ()
          | Some h \<Rightarrow> hook_call AfterPatch p (h p)))"

subsection \<open>AbstractFile.openReadStream and openWriteStream\<close>

text \<open>
  \<^verbatim>\<open>
  public async openReadStream(options: OpenOptions = {}): Promise<ReadStream> {
    let rs: ReadStream | null | undefined;
    if (!options.ignoreHook && this.beforeGet) {
      rs = await this.beforeGet(this.path, options);
    }
    if (!rs) {
      rs = await this._openReadStream(options);
    }
    return rs;
  }
  \<close>
\<close>

definition openReadStream :: "'b filesystem \<Rightarrow> path \<Rightarrow> options \<Rightarrow> ('b, ReadStream) io" where
  "openReadStream fs p opts =
     bnd (if ignoreHook opts then ret None
          else (case beforeGet (fs_hook fs) of
                  None \<Rightarrow> ret None
                | Some h \<Rightarrow> hook_call BeforeGet p (h p opts)))
       (\<lambda>hooked.
     case hooked of
       None \<Rightarrow>
         bnd (prim PrimOpenReadStream p (prim_openReadStream fs p opts))
           (\<lambda>u. ret \<lparr>rs_path = p, rs_options = opts, rs_handled = False\<rparr>)
     | Some rs \<Rightarrow> ret rs)"

text \<open>
  \<^verbatim>\<open>
  public async openWriteStream(options: OpenWriteOptions = {}): Promise<WriteStream> {
    let ws: WriteStream | null | undefined;
    try {
      await this.stat();
      if (options.create === true) {
        throw new PathExistsError(this.fs.repository, this.path);
      }
      options.create = false;
      if (!options.ignoreHook && this.beforePut) {
        ws = await this.beforePut(this.path, options);
      }
    } catch (e) {
      if (e instanceof NotFoundError) {
        if (options.create === false) {
          throw e;
        }
        options.create = true;
        if (!options.ignoreHook && this.beforePost) {
          ws = await this.beforePost(this.path, options);
        }
      } else {
        throw e;
      }
    }
    if (!ws) {
      ws = await this._openWriteStream(options);
    }
    return ws;
  }
  \<close>
  The \<^verbatim>\<open>options\<close> object is mutated inside the \<^verbatim>\<open>try\<close> block and read in the
  \<^verbatim>\<open>catch\<close> block, so the \<^verbatim>\<open>try\<close> block is modelled by
  \<open>openWriteStream_try\<close>, which returns its outcome together with the options as they
  are when the block is left.
\<close>

definition hooked_write ::
  "hook_id \<Rightarrow> (path \<Rightarrow> options \<Rightarrow> ('b, WriteStream option) call) option \<Rightarrow> path \<Rightarrow> options
    \<Rightarrow> ('b, WriteStream option) io" where
  "hooked_write i h p opts =
     (if ignoreHook opts then ret None
      else (case h of None \<Rightarrow> ret None | Some f \<Rightarrow> hook_call i p (f p opts)))"

definition openWriteStream_try ::
  "'b filesystem \<Rightarrow> path \<Rightarrow> options \<Rightarrow> 'b state
    \<Rightarrow> (error + WriteStream option) \<times> options \<times> 'b state" where
  "openWriteStream_try fs p opts s =
     (case head fs p no_options s of
        (Inl e, s1) \<Rightarrow> (Inl e, opts, s1)
      | (Inr st, s1) \<Rightarrow>
          if create opts = Some True
          then (Inl (Error PathExistsError (fs_repository fs) p), opts, s1)
          else (case hooked_write BeforePut (beforePut (fs_hook fs)) p
                       (opts\<lparr>create := Some False\<rparr>) s1 of
                  (r, s2) \<Rightarrow> (r, opts\<lparr>create := Some False\<rparr>, s2)))"

definition open_unless_hooked ::
  "'b filesystem \<Rightarrow> path \<Rightarrow> options \<Rightarrow> WriteStream option \<Rightarrow> ('b, WriteStream) io" where
  "open_unless_hooked fs p opts ws =
     (case ws of
        None \<Rightarrow>
          bnd (prim PrimOpenWriteStream p (prim_openWriteStream fs p opts))
            (\<lambda>u. ret \<lparr>ws_path = p, ws_options = opts, ws_handled = False\<rparr>)
      | Some w \<Rightarrow> ret w)"

definition openWriteStream :: "'b filesystem \<Rightarrow> path \<Rightarrow> options \<Rightarrow> ('b, WriteStream) io" where
  "openWriteStream fs p opts s =
     (case openWriteStream_try fs p opts s of
        (Inr ws, opts1, s1) \<Rightarrow> open_unless_hooked fs p opts1 ws s1
      | (Inl e, opts1, s1) \<Rightarrow>
          if err_name e = NotFoundError then
            (if create opts1 = Some False then (Inl e, s1)
             else bnd (hooked_write BeforePost (beforePost (fs_hook fs)) p
                         (opts1\<lparr>create := Some True\<rparr>))
                    (open_unless_hooked fs p (opts1\<lparr>create := Some True\<rparr>)) s1)
          else (Inl e, s1))"

subsection \<open>ReadStream and WriteStream (core.ts)\<close>

text \<open>
  \<^verbatim>\<open>
  public async close(): Promise<void> {
    await this._close();
    if (!this.options.ignoreHook && this.afterGet) {
      this.afterGet(this.fso.path);
    }
  }
  public async read(size?: number): Promise<ArrayBuffer | Uint8Array> {
    const buffer = await this._read(size);
    this.handled = true;
    return buffer;
  }
  \<close>
  The call of \<^verbatim>\<open>afterGet\<close> is not awaited.
\<close>

definition ReadStream_close :: "'b filesystem \<Rightarrow> ReadStream \<Rightarrow> ('b, unit) io" where
  "ReadStream_close fs rs =
     bnd (prim PrimCloseRead (rs_path rs) (prim_closeRead fs (rs_path rs)))
       (\<lambda>u.
          if ignoreHook (rs_options rs) then ret ()
          else (case afterGet (fs_hook fs) of
                  None \<Rightarrow> ret ()
                | Some h \<Rightarrow>
                    bnd (not_awaited (hook_call AfterGet (rs_path rs) (h (rs_path rs))))
                      (\<lambda>promise. ret ())))"

definition ReadStream_read ::
  "'b filesystem \<Rightarrow> ReadStream \<Rightarrow> nat option \<Rightarrow> ('b, jsval \<times> ReadStream) io" where
  "ReadStream_read fs rs sz =
     bnd (prim PrimRead (rs_path rs) (prim_read fs (rs_path rs) sz))
       (\<lambda>buffer. ret (buffer, rs\<lparr>rs_handled := True\<rparr>))"

text \<open>
  \<^verbatim>\<open>
  public async close(): Promise<void> {
    await this._close();
    if (!this.handled) {
      return;
    }
    if (!this.options.ignoreHook && this.afterPost && this.options.create) {
      await this.afterPost(this.fso.path);
    } else if (
      !this.options.ignoreHook &&
      this.afterPut &&
      !this.options.create
    ) {
      await this.afterPut(this.fso.path);
    }
  }
  public async setLength(len: number): Promise<void> {
    await this.setLength(len);
    this.handled = true;
  }
  public async write(buffer: ArrayBuffer | Uint8Array): Promise<void> {
    await this._write(buffer);
    this.handled = true;
  }
  \<close>
  \<^verbatim>\<open>setLength\<close> calls itself, not \<^verbatim>\<open>_setLength\<close>: the operand of its
  \<^verbatim>\<open>await\<close> is evaluated before anything is suspended, so the calls nest on the
  stack until the engine throws a \<^verbatim>\<open>RangeError\<close>, with which every promise of the
  chain rejects. The first argument of \<open>WriteStream_setLength\<close> is the number of
  frames the stack has room for.
\<close>

definition WriteStream_close :: "'b filesystem \<Rightarrow> WriteStream \<Rightarrow> ('b, unit) io" where
  "WriteStream_close fs ws =
     bnd (prim PrimCloseWrite (ws_path ws) (prim_closeWrite fs (ws_path ws)))
       (\<lambda>u.
          if \<not> ws_handled ws then ret ()
          else if ignoreHook (ws_options ws) then ret ()
          else if create (ws_options ws) = Some True then
            (case afterPost (fs_hook fs) of
               None \<Rightarrow> ret ()
             | Some h \<Rightarrow> hook_call AfterPost (ws_path ws) (h (ws_path ws)))
          else
            (case afterPut (fs_hook fs) of
               None \<Rightarrow> ret ()
             | Some h \<Rightarrow> hook_call AfterPut (ws_path ws) (h (ws_path ws))))"

definition WriteStream_write ::
  "'b filesystem \<Rightarrow> WriteStream \<Rightarrow> jsval \<Rightarrow> ('b, WriteStream) io" where
  "WriteStream_write fs ws buffer =
     bnd (prim PrimWrite (ws_path ws) (prim_write fs (ws_path ws) buffer))
       (\<lambda>u. ret (ws\<lparr>ws_handled := True\<rparr>))"

fun WriteStream_setLength ::
  "nat \<Rightarrow> 'b filesystem \<Rightarrow> WriteStream \<Rightarrow> nat \<Rightarrow> ('b, WriteStream) io" where
  "WriteStream_setLength 0 fs ws len = throw (Error RangeError (fs_repository fs) (ws_path ws))"
| "WriteStream_setLength (Suc frames) fs ws len =
     bnd (WriteStream_setLength frames fs ws len) (\<lambda>ws'. ret (ws'\<lparr>ws_handled := True\<rparr>))"

section \<open>Paths (util.ts)\<close>

text \<open>
  \<^verbatim>\<open>
  function getPathParts(path: string) {
    const parts = path.split("/");
    const pathParts = [];
    for (const part of parts) {
      if (part === "..") {
        if (pathParts.length === 0) {
          throw createError({ name: SyntaxError.name, repository: "", path });
        }
        pathParts.pop();
      } else if (part === ".") {
      } else if (part !== "") {
        pathParts.push(part);
      }
    }
    return pathParts;
  }
  \<close>
\<close>

fun split_slash :: "string \<Rightarrow> string list" where
  "split_slash [] = [[]]"
| "split_slash (c # cs) =
     (if c = CHR ''/'' then [] # split_slash cs
      else (case split_slash cs of
              [] \<Rightarrow> [[c]]
            | part # parts \<Rightarrow> (c # part) # parts))"

fun join_slash :: "string list \<Rightarrow> string" where
  "join_slash [] = []"
| "join_slash [part] = part"
| "join_slash (part # parts) = part @ ''/'' @ join_slash parts"

fun collect_parts :: "string list \<Rightarrow> string list \<Rightarrow> string list option" where
  "collect_parts [] pathParts = Some pathParts"
| "collect_parts (part # parts) pathParts =
     (if part = ''..'' then
        (if pathParts = [] then None else collect_parts parts (butlast pathParts))
      else if part = ''.'' then collect_parts parts pathParts
      else if part \<noteq> [] then collect_parts parts (pathParts @ [part])
      else collect_parts parts pathParts)"

definition getPathParts :: "path \<Rightarrow> error + string list" where
  "getPathParts p =
     (case collect_parts (split_slash p) [] of
        None \<Rightarrow> Inl (Error SyntaxError [] p)
      | Some parts \<Rightarrow> Inr parts)"

definition getParentPath :: "path \<Rightarrow> error + path" where
  "getParentPath p =
     (case getPathParts p of
        Inl e \<Rightarrow> Inl e
      | Inr parts \<Rightarrow>
          if length parts \<le> 1 then Inr ''/'' else Inr (''/'' @ join_slash (butlast parts)))"

definition getName :: "path \<Rightarrow> error + string" where
  "getName p =
     (case getPathParts p of
        Inl e \<Rightarrow> Inl e
      | Inr parts \<Rightarrow> if parts = [] then Inr [] else Inr (last parts))"

definition normalizePath :: "path \<Rightarrow> error + path" where
  "normalizePath p =
     (case getPathParts p of
        Inl e \<Rightarrow> Inl e
      | Inr parts \<Rightarrow> Inr (''/'' @ join_slash parts))"

definition joinPaths :: "path \<Rightarrow> path \<Rightarrow> error + path" where
  "joinPaths path1 path2 =
     (case getPathParts path1 of
        Inl e \<Rightarrow> Inl e
      | Inr parts1 \<Rightarrow>
          (case getPathParts path2 of
             Inl e \<Rightarrow> Inl e
           | Inr parts2 \<Rightarrow> Inr (''/'' @ join_slash (parts1 @ parts2))))"

section \<open>Copy and move (core.ts)\<close>

text \<open>
  The walk of a directory tree follows what the backend lists, so nothing bounds its
  depth, and a loop may run for ever: copy and move return \<open>None\<close> when they do not
  return.
\<close>

type_synonym ('b, 'a) pio = "'b state \<Rightarrow> ((error + 'a) \<times> 'b state) option"

text \<open>The value of a call of an \<^verbatim>\<open>async\<close> method that is not awaited: the promise,
  whatever the call will settle to.\<close>

definition promise_of :: "(error + 'a) \<Rightarrow> jsval" where
  "promise_of r = JSpromise"

text \<open>
  The loop of \<^verbatim>\<open>AbstractFile._xmit\<close>:
  \<^verbatim>\<open>
  let buffer: any;
  while ((buffer = rs.read()) == null) {
    ws.write(buffer);
  }
  \<close>
  Neither call is awaited. The calls are made (their effects are run in place, and the
  flag \<^verbatim>\<open>handled\<close> they set is kept), and \<^verbatim>\<open>buffer\<close> is the promise of
  \<^verbatim>\<open>rs.read()\<close>.
\<close>

partial_function (option) copy_loop ::
  "'b filesystem \<Rightarrow> ReadStream \<Rightarrow> WriteStream \<Rightarrow> 'b state
    \<Rightarrow> (ReadStream \<times> WriteStream \<times> 'b state) option" where
  "copy_loop fs rs ws s =
     (case ReadStream_read fs rs None s of
        (r, s1) \<Rightarrow>
          if loose_eq_null (promise_of r) then
            (case WriteStream_write fs ws (promise_of r) s1 of
               (w, s2) \<Rightarrow>
                 copy_loop fs (case r of Inl e \<Rightarrow> rs | Inr (buffer, rs') \<Rightarrow> rs')
                   (case w of Inl e \<Rightarrow> ws | Inr ws' \<Rightarrow> ws') s2)
          else Some (case r of Inl e \<Rightarrow> rs | Inr (buffer, rs') \<Rightarrow> rs', ws, s1))"

declare copy_loop.simps [code]

definition push_error :: "XmitError \<Rightarrow> ('b, unit) io" where
  "push_error x = (\<lambda>s. (Inr (), s\<lparr>copyErrors := copyErrors s @ [x]\<rparr>))"

text \<open>
  \<^verbatim>\<open>
  public async _xmit(fso, move, copyErrors, options: XmitOptions = {}): Promise<void> {
    await this.stat(); // check if this directory exists
    if (fso instanceof AbstractDirectory) {
      throw new InvalidModificationError(fso.fs.repository, fso.path, ...);
    }
    const to = fso as AbstractFile;

    const rs = await this.openReadStream({ bufferSize: options.bufferSize });
    try {
      let create: boolean;
      try {
        await to.stat();
        create = false;
      } catch (e) {
        if (e instanceof NotFoundError) {
          create = true;
        } else {
          throw e;
        }
      }
      const ws = await to.openWriteStream({ create, bufferSize: options.bufferSize });
      try {
        let buffer: any;
        while ((buffer = rs.read()) == null) {
          ws.write(buffer);
        }
      } finally {
        ws.close();
      }
    } finally {
      rs.close();
    }

    if (move) {
      try {
      } catch (error) {
        copyErrors.push({ from: this, to, error });
      }
    }
  }
  \<close>
  \<open>xmit_streams\<close> is the body of the outer \<^verbatim>\<open>try\<close>; it also returns the read
  stream, which the \<^verbatim>\<open>finally\<close> block closes. Both \<^verbatim>\<open>close()\<close> calls are
  not awaited. Source and destination belong to the same file system, as they do when
  \<^verbatim>\<open>copy\<close> and \<^verbatim>\<open>move\<close> of the file system build them.
\<close>

definition xmit_streams ::
  "'b filesystem \<Rightarrow> ReadStream \<Rightarrow> path \<Rightarrow> options \<Rightarrow> 'b state
    \<Rightarrow> ((error + unit) \<times> ReadStream \<times> 'b state) option" where
  "xmit_streams fs rs tp opts s =
     (case try_catch (bnd (head fs tp no_options) (\<lambda>st. ret False))
             (\<lambda>e. if err_name e = NotFoundError then ret True else throw e) s of
        (Inl e, s1) \<Rightarrow> Some (Inl e, rs, s1)
      | (Inr cr, s1) \<Rightarrow>
          (case openWriteStream fs tp
                  \<lparr>ignoreHook = False, create = Some cr, bufferSize = bufferSize opts\<rparr> s1 of
             (Inl e, s2) \<Rightarrow> Some (Inl e, rs, s2)
           | (Inr ws, s2) \<Rightarrow>
               (case copy_loop fs rs ws s2 of
                  None \<Rightarrow> None
                | Some (rs', ws', s3) \<Rightarrow>
                    Some (Inr (), rs', snd (not_awaited (WriteStream_close fs ws') s3)))))"

definition File_xmit :: "'b filesystem \<Rightarrow> path \<Rightarrow> fso \<Rightarrow> bool \<Rightarrow> options \<Rightarrow> ('b, unit) pio" where
  "File_xmit fs this fso move opts s =
     (case head fs this no_options s of
        (Inl e, s1) \<Rightarrow> Some (Inl e, s1)
      | (Inr st, s1) \<Rightarrow>
          (case fso of
             AbstractDirectory tp \<Rightarrow>
               Some (Inl (Error InvalidModificationError (fs_repository fs) tp), s1)
           | AbstractFile tp \<Rightarrow>
               (case openReadStream fs this
                       \<lparr>ignoreHook = False, create = None, bufferSize = bufferSize opts\<rparr> s1 of
                  (Inl e, s2) \<Rightarrow> Some (Inl e, s2)
                | (Inr rs, s2) \<Rightarrow>
                    (case xmit_streams fs rs tp opts s2 of
                       None \<Rightarrow> None
                     | Some (r, rs', s3) \<Rightarrow>
                         (case (r, snd (not_awaited (ReadStream_close fs rs') s3)) of
                            (Inl e, s4) \<Rightarrow> Some (Inl e, s4)
                          | (Inr u, s4) \<Rightarrow>
                              Some ((if move
                                     then try_catch (ret ())
                                            (\<lambda>error. push_error
                                               (XmitError (AbstractFile this) (AbstractFile tp) error))
                                     else ret ()) s4))))))"

text \<open>
  \<^verbatim>\<open>
  public async _xmit(fso, move, copyErrors, options: XmitOptions = {}): Promise<void> {
    await this.head(); // check if this directory exists
    if (fso instanceof AbstractFile) {
      throw new InvalidModificationError(fso.fs.repository, fso.path, ...);
    }

    const toDir = fso as unknown as AbstractDirectory;
    await toDir.mkcol();

    const children = await this.list();
    for (const child of children) {
      const stats = await this.fs.head(child);
      const fromFso = await (stats.size
        ? this.fs.getFile(child)
        : this.fs.getDirectory(child));
      const name = getName(child);
      const toPath = joinPaths(toDir.path, name);
      const toFso = await (stats.size
        ? this.fs.getFile(toPath)
        : this.fs.getDirectory(toPath));
      try {
        await fromFso._xmit(toFso, move, copyErrors, options);
        if (move) {
          try {
            await fromFso.delete();
          } catch (error) {
            copyErrors.push({ from: fromFso, to: toFso, error });
          }
        }
      } catch (error) {
        copyErrors.push({ from: fromFso, to: toFso, error });
      }
    }
  }
  \<close>
  \<^verbatim>\<open>getFile\<close> and \<^verbatim>\<open>getDirectory\<close> build the handle and do no I/O. The first
  argument bounds the depth of the directories entered; \<open>xmit_children\<close> is the
  \<^verbatim>\<open>for\<close> loop.
\<close>

definition entry_of :: "stats \<Rightarrow> path \<Rightarrow> fso" where
  "entry_of st p = (if truthy_number (stats_size st) then AbstractFile p else AbstractDirectory p)"

fun Directory_xmit ::
    "nat \<Rightarrow> 'b filesystem \<Rightarrow> path \<Rightarrow> fso \<Rightarrow> bool \<Rightarrow> options \<Rightarrow> ('b, unit) pio"
  and xmit_children ::
    "nat \<Rightarrow> 'b filesystem \<Rightarrow> path \<Rightarrow> bool \<Rightarrow> options \<Rightarrow> path list \<Rightarrow> ('b, unit) pio"
where
  "Directory_xmit 0 fs this fso move opts s = None"
| "Directory_xmit (Suc depth) fs this fso move opts s =
     (case head fs this no_options s of
        (Inl e, s1) \<Rightarrow> Some (Inl e, s1)
      | (Inr st, s1) \<Rightarrow>
          (case fso of
             AbstractFile tp \<Rightarrow>
               Some (Inl (Error InvalidModificationError (fs_repository fs) tp), s1)
           | AbstractDirectory toDir \<Rightarrow>
               (case mkcol fs toDir no_options s1 of
                  (Inl e, s2) \<Rightarrow> Some (Inl e, s2)
                | (Inr u, s2) \<Rightarrow>
                    (case list_dir fs this no_options s2 of
                       (Inl e, s3) \<Rightarrow> Some (Inl e, s3)
                     | (Inr children, s3) \<Rightarrow>
                         xmit_children depth fs toDir move opts children s3))))"
| "xmit_children depth fs toDir move opts [] s = Some (Inr (), s)"
| "xmit_children depth fs toDir move opts (child # children) s =
     (case head fs child no_options s of
        (Inl e, s1) \<Rightarrow> Some (Inl e, s1)
      | (Inr st, s1) \<Rightarrow>
          (case getName child of
             Inl e \<Rightarrow> Some (Inl e, s1)
           | Inr name \<Rightarrow>
               (case joinPaths toDir name of
                  Inl e \<Rightarrow> Some (Inl e, s1)
                | Inr toPath \<Rightarrow>
                    (case (case entry_of st child of
                             AbstractFile p \<Rightarrow>
                               File_xmit fs p (entry_of st toPath) move opts s1
                           | AbstractDirectory p \<Rightarrow>
                               Directory_xmit depth fs p (entry_of st toPath) move opts s1) of
                       None \<Rightarrow> None
                     | Some (Inl error, s2) \<Rightarrow>
                         xmit_children depth fs toDir move opts children
                           (snd (push_error
                                   (XmitError (entry_of st child) (entry_of st toPath) error) s2))
                     | Some (Inr u, s2) \<Rightarrow>
                         if move then
                           (case delete fs child no_options s2 of
                              (Inl error, s3) \<Rightarrow>
                                xmit_children depth fs toDir move opts children
                                  (snd (push_error
                                          (XmitError (entry_of st child) (entry_of st toPath) error)
                                          s3))
                            | (Inr u', s3) \<Rightarrow>
                                xmit_children depth fs toDir move opts children s3)
                         else xmit_children depth fs toDir move opts children s2))))"

text \<open>
  \<^verbatim>\<open>
  public async copy(fso, options): Promise<XmitError[]> {
    const copyErrors: XmitError[] = [];
    await this._xmit(fso, false, copyErrors, options);
    return copyErrors;
  }
  \<close>
  and \<^verbatim>\<open>move\<close> with \<^verbatim>\<open>true\<close>, of \<^verbatim>\<open>AbstractFileSystemObject\<close>.
\<close>

definition fso_xmit ::
  "nat \<Rightarrow> 'b filesystem \<Rightarrow> fso \<Rightarrow> fso \<Rightarrow> bool \<Rightarrow> options \<Rightarrow> ('b, unit) pio" where
  "fso_xmit depth fs from_fso to_fso move opts =
     (case from_fso of
        AbstractFile p \<Rightarrow> File_xmit fs p to_fso move opts
      | AbstractDirectory p \<Rightarrow> Directory_xmit depth fs p to_fso move opts)"

definition fso_transfer ::
  "bool \<Rightarrow> nat \<Rightarrow> 'b filesystem \<Rightarrow> fso \<Rightarrow> fso \<Rightarrow> options \<Rightarrow> ('b, XmitError list) pio" where
  "fso_transfer move depth fs from_fso to_fso opts s =
     (case fso_xmit depth fs from_fso to_fso move opts (s\<lparr>copyErrors := []\<rparr>) of
        None \<Rightarrow> None
      | Some (Inl e, s') \<Rightarrow> Some (Inl e, s')
      | Some (Inr u, s') \<Rightarrow> Some (Inr (copyErrors s'), s'))"

definition fso_copy ::
  "nat \<Rightarrow> 'b filesystem \<Rightarrow> fso \<Rightarrow> fso \<Rightarrow> options \<Rightarrow> ('b, XmitError list) pio" where
  "fso_copy = fso_transfer False"

definition fso_move ::
  "nat \<Rightarrow> 'b filesystem \<Rightarrow> fso \<Rightarrow> fso \<Rightarrow> options \<Rightarrow> ('b, XmitError list) pio" where
  "fso_move = fso_transfer True"

text \<open>
  \<^verbatim>\<open>
  private async _prepareXmit(fromPath: string, toPath: string) {
    const stats = await this.stat(fromPath);
    const from = await (stats.size ? this.getFile(fromPath) : this.getDirectory(fromPath));
    const to = await (stats.size ? this.getFile(toPath) : this.getDirectory(toPath));
    return { from, to };
  }
  public async copy(fromPath, toPath, options: XmitOptions = {}): Promise<XmitError[]> {
    const { from, to } = await this._prepareXmit(fromPath, toPath);
    return from.copy(to, options);
  }
  \<close>
\<close>

definition prepareXmit :: "'b filesystem \<Rightarrow> path \<Rightarrow> path \<Rightarrow> ('b, fso \<times> fso) io" where
  "prepareXmit fs fromPath toPath =
     bnd (head fs fromPath no_options)
       (\<lambda>st. ret (entry_of st fromPath, entry_of st toPath))"

definition fs_copy ::
  "nat \<Rightarrow> 'b filesystem \<Rightarrow> path \<Rightarrow> path \<Rightarrow> options \<Rightarrow> ('b, XmitError list) pio" where
  "fs_copy depth fs fromPath toPath opts s =
     (case prepareXmit fs fromPath toPath s of
        (Inl e, s1) \<Rightarrow> Some (Inl e, s1)
      | (Inr (from_fso, to_fso), s1) \<Rightarrow> fso_copy depth fs from_fso to_fso opts s1)"

definition fs_move ::
  "nat \<Rightarrow> 'b filesystem \<Rightarrow> path \<Rightarrow> path \<Rightarrow> options \<Rightarrow> ('b, XmitError list) pio" where
  "fs_move depth fs fromPath toPath opts s =
     (case prepareXmit fs fromPath toPath s of
        (Inl e, s1) \<Rightarrow> Some (Inl e, s1)
      | (Inr (from_fso, to_fso), s1) \<Rightarrow> fso_move depth fs from_fso to_fso opts s1)"

section \<open>AbstractWriteStream (AbstractWriteStream.ts, AbstractStream)\<close>

text \<open>
  The later write stream keeps a \<^verbatim>\<open>position\<close> and the flag \<^verbatim>\<open>changed\<close>.
  \<^verbatim>\<open>
  public async close(): Promise<void> {
    await this._close();
    this.position = 0;
    if (!this.changed) {
      return;
    }
    if (!this.options.ignoreHook && this.afterPost && this.options.create) {
      await this.afterPost(this.file.path);
    } else if (!this.options.ignoreHook && this.afterPut && !this.options.create) {
      await this.afterPut(this.file.path);
    }
  }
  public async truncate(size: number): Promise<void> {
    await this._truncate(size);
    if (size < this.position) {
      this.position = size;
    }
    this.changed = true;
  }
  public async write(src: Source): Promise<number> {
    const written = await this._write(src);
    this.position += written;
    this.changed = true;
    return written;
  }
  \<close>
  and, inherited from \<^verbatim>\<open>AbstractStream\<close>,
  \<^verbatim>\<open>
  public async seek(offset: number, origin: SeekOrigin): Promise<void> {
    const stats = await this.file.head();
    const size = stats.size as number;
    let start: number | undefined;
    if (origin === SeekOrigin.Begin) {
      start = offset;
    } else if (origin === SeekOrigin.Current) {
      start = this.position + offset;
    } else {
      start = size + offset;
    }
    if (start < 0) {
      start = 0;
    } else if (size < start) {
      start = size;
    }
    this.position = start;
    await this._seek(start);
  }
  \<close>
  A \<^verbatim>\<open>Source\<close> is a text, binary data, or a string with its encoding. Numbers are
  integers; \<open>None\<close> is \<^verbatim>\<open>NaN\<close>, which \<^verbatim>\<open>size + offset\<close> is when the
  entry has no \<^verbatim>\<open>size\<close>, and every comparison with it is false.
  A method assigns to the fields of the stream before it may still reject, so a method
  returns its outcome, the stream as it has become, and the state.
\<close>

datatype source = Text string | Binary bytes | Encoded string string

datatype SeekOrigin = Begin | Current | End

record AbstractWriteStream =
  aws_path :: path
  aws_options :: options
  position :: "int option"
  changed :: bool

record 'b stream_prims =
  sp_close :: "path \<Rightarrow> ('b, unit) call"
  sp_truncate :: "path \<Rightarrow> int \<Rightarrow> ('b, unit) call"
  sp_write :: "path \<Rightarrow> source \<Rightarrow> ('b, int) call"
  sp_seek :: "path \<Rightarrow> int option \<Rightarrow> ('b, unit) call"

definition num_less :: "int option \<Rightarrow> int option \<Rightarrow> bool" where
  "num_less a b = (case a of None \<Rightarrow> False | Some x \<Rightarrow> (case b of None \<Rightarrow> False | Some y \<Rightarrow> x < y))"

definition num_add :: "int option \<Rightarrow> int option \<Rightarrow> int option" where
  "num_add a b = (case a of None \<Rightarrow> None | Some x \<Rightarrow> (case b of None \<Rightarrow> None | Some y \<Rightarrow> Some (x + y)))"

definition aws_close ::
  "'b filesystem \<Rightarrow> 'b stream_prims \<Rightarrow> AbstractWriteStream \<Rightarrow> 'b state
    \<Rightarrow> (error + unit) \<times> AbstractWriteStream \<times> 'b state" where
  "aws_close fs pr ws s =
     (case prim PrimCloseWrite (aws_path ws) (sp_close pr (aws_path ws)) s of
        (Inl e, s1) \<Rightarrow> (Inl e, ws, s1)
      | (Inr u, s1) \<Rightarrow>
          if \<not> changed ws then (Inr (), ws\<lparr>position := Some 0\<rparr>, s1)
          else (case (if ignoreHook (aws_options ws) then ret ()
                      else if create (aws_options ws) = Some True then
                        (case afterPost (fs_hook fs) of
                           None \<Rightarrow> ret ()
                         | Some h \<Rightarrow> hook_call AfterPost (aws_path ws) (h (aws_path ws)))
                      else
                        (case afterPut (fs_hook fs) of
                           None \<Rightarrow> ret ()
                         | Some h \<Rightarrow> hook_call AfterPut (aws_path ws) (h (aws_path ws)))) s1 of
                  (r, s2) \<Rightarrow> (r, ws\<lparr>position := Some 0\<rparr>, s2)))"

definition aws_truncate ::
  "'b stream_prims \<Rightarrow> int \<Rightarrow> AbstractWriteStream \<Rightarrow> 'b state
    \<Rightarrow> (error + unit) \<times> AbstractWriteStream \<times> 'b state" where
  "aws_truncate pr sz ws s =
     (case prim PrimTruncate (aws_path ws) (sp_truncate pr (aws_path ws) sz) s of
        (Inl e, s1) \<Rightarrow> (Inl e, ws, s1)
      | (Inr u, s1) \<Rightarrow>
          (Inr (),
           ws\<lparr>position := (if num_less (Some sz) (position ws) then Some sz else position ws),
              changed := True\<rparr>,
           s1))"

definition aws_write ::
  "'b stream_prims \<Rightarrow> source \<Rightarrow> AbstractWriteStream \<Rightarrow> 'b state
    \<Rightarrow> (error + int) \<times> AbstractWriteStream \<times> 'b state" where
  "aws_write pr src ws s =
     (case prim PrimWrite (aws_path ws) (sp_write pr (aws_path ws) src) s of
        (Inl e, s1) \<Rightarrow> (Inl e, ws, s1)
      | (Inr written, s1) \<Rightarrow>
          (Inr written,
           ws\<lparr>position := num_add (position ws) (Some written), changed := True\<rparr>,
           s1))"

definition seek_start :: "int option \<Rightarrow> int option \<Rightarrow> int \<Rightarrow> SeekOrigin \<Rightarrow> int option" where
  "seek_start sz pos offset origin =
     (let start = (case origin of
                     Begin \<Rightarrow> Some offset
                   | Current \<Rightarrow> num_add pos (Some offset)
                   | End \<Rightarrow> num_add sz (Some offset))
      in if num_less start (Some 0) then Some 0
         else if num_less sz start then sz
         else start)"

definition aws_seek ::
  "'b filesystem \<Rightarrow> 'b stream_prims \<Rightarrow> int \<Rightarrow> SeekOrigin \<Rightarrow> AbstractWriteStream \<Rightarrow> 'b state
    \<Rightarrow> (error + unit) \<times> AbstractWriteStream \<times> 'b state" where
  "aws_seek fs pr offset origin ws s =
     (case head fs (aws_path ws) no_options s of
        (Inl e, s1) \<Rightarrow> (Inl e, ws, s1)
      | (Inr st, s1) \<Rightarrow>
          (case prim PrimSeek (aws_path ws)
                  (sp_seek pr (aws_path ws)
                     (seek_start (map_option int (stats_size st)) (position ws) offset origin)) s1 of
             (r, s2) \<Rightarrow>
               (r,
                ws\<lparr>position :=
                     seek_start (map_option int (stats_size st)) (position ws) offset origin\<rparr>,
                s2)))"

text \<open>A caller of a write stream: any sequence of calls of \<^verbatim>\<open>write\<close>,
  \<^verbatim>\<open>truncate\<close> and \<^verbatim>\<open>seek\<close> on one stream, going on after a call that rejects,
  between opening the stream (\<^verbatim>\<open>position = 0\<close>, \<^verbatim>\<open>changed = false\<close>) and
  closing it.\<close>

datatype stream_call = CallWrite source | CallTruncate int | CallSeek int SeekOrigin

fun mutating :: "stream_call \<Rightarrow> bool" where
  "mutating (CallWrite src) = True"
| "mutating (CallTruncate sz) = True"
| "mutating (CallSeek offset origin) = False"

definition opened :: "path \<Rightarrow> options \<Rightarrow> AbstractWriteStream" where
  "opened p opts = \<lparr>aws_path = p, aws_options = opts, position = Some 0, changed = False\<rparr>"

fun aws_run ::
  "'b filesystem \<Rightarrow> 'b stream_prims \<Rightarrow> stream_call list \<Rightarrow> AbstractWriteStream \<Rightarrow> 'b state
    \<Rightarrow> AbstractWriteStream \<times> 'b state" where
  "aws_run fs pr [] ws s = (ws, s)"
| "aws_run fs pr (CallWrite src # calls) ws s =
     (case aws_write pr src ws s of (r, ws1, s1) \<Rightarrow> aws_run fs pr calls ws1 s1)"
| "aws_run fs pr (CallTruncate sz # calls) ws s =
     (case aws_truncate pr sz ws s of (r, ws1, s1) \<Rightarrow> aws_run fs pr calls ws1 s1)"
| "aws_run fs pr (CallSeek offset origin # calls) ws s =
     (case aws_seek fs pr offset origin ws s of (r, ws1, s1) \<Rightarrow> aws_run fs pr calls ws1 s1)"

text \<open>The same for the write stream of core.ts, whose calls are \<^verbatim>\<open>write\<close> and
  \<^verbatim>\<open>setLength\<close> (\<open>frames\<close> is the room on the stack).\<close>

datatype core_call = CoreWrite jsval | CoreSetLength nat

fun core_run ::
  "nat \<Rightarrow> 'b filesystem \<Rightarrow> core_call list \<Rightarrow> WriteStream \<Rightarrow> 'b state \<Rightarrow> WriteStream \<times> 'b state" where
  "core_run frames fs [] ws s = (ws, s)"
| "core_run frames fs (CoreWrite buffer # calls) ws s =
     (case WriteStream_write fs ws buffer s of
        (Inl e, s1) \<Rightarrow> core_run frames fs calls ws s1
      | (Inr ws1, s1) \<Rightarrow> core_run frames fs calls ws1 s1)"
| "core_run frames fs (CoreSetLength len # calls) ws s =
     (case WriteStream_setLength frames fs ws len s of
        (Inl e, s1) \<Rightarrow> core_run frames fs calls ws s1
      | (Inr ws1, s1) \<Rightarrow> core_run frames fs calls ws1 s1)"

fun core_write :: "core_call \<Rightarrow> bool" where
  "core_write (CoreWrite buffer) = True"
| "core_write (CoreSetLength len) = False"

text \<open>The events a call has added to the trace.\<close>

definition new_events :: "'b state \<Rightarrow> 'b state \<Rightarrow> event list" where
  "new_events s s' = drop (length (trace s)) (trace s')"

section \<open>AbstractFile.getSource (the Source-based AbstractFile)\<close>

text \<open>
  In the \<^verbatim>\<open>Source\<close>-based file class the hooks of a read are
  \<^verbatim>\<open>beforeGet(path, options): Promise<Source | null>\<close> and
  \<^verbatim>\<open>afterGet(path, source): Promise<void>\<close>.
  \<^verbatim>\<open>
  private async getSource(options: OpenOptions): Promise<Source> {
    const ignoreHook = options.ignoreHook;
    const path = this.path;
    let source: Source | null = null;
    if (!ignoreHook && this.beforeGet) {
      source = await this.beforeGet(path, options);
    }
    if (!source) {
      source = await this._getSource(options);
    }
    if (!ignoreHook && this.afterGet) {
      this.afterGet(path, source).catch((e) => console.warn(e));
    }
    return source;
  }
  \<close>
  \<^verbatim>\<open>!source\<close> is a test of truthiness: it holds of \<^verbatim>\<open>null\<close> and of the empty
  string, which is the text of an empty file.
\<close>

record 'b source_file =
  sf_beforeGet :: "(path \<Rightarrow> options \<Rightarrow> ('b, source option) call) option"
  sf_afterGet :: "(path \<Rightarrow> source \<Rightarrow> ('b, unit) call) option"
  sf_getSource :: "path \<Rightarrow> options \<Rightarrow> ('b, source) call"

definition falsy_source :: "source option \<Rightarrow> bool" where
  "falsy_source src = (case src of None \<Rightarrow> True | Some (Text t) \<Rightarrow> t = [] | Some other \<Rightarrow> False)"

definition before_getSource :: "'b source_file \<Rightarrow> path \<Rightarrow> options \<Rightarrow> ('b, source option) io" where
  "before_getSource f p opts =
     (if ignoreHook opts then ret None
      else (case sf_beforeGet f of
              None \<Rightarrow> ret None
            | Some h \<Rightarrow> hook_call BeforeGet p (h p opts)))"

definition getSource_source :: "'b source_file \<Rightarrow> path \<Rightarrow> options \<Rightarrow> ('b, source) io" where
  "getSource_source f p opts =
     bnd (before_getSource f p opts)
       (\<lambda>hooked.
          if falsy_source hooked then prim PrimGetSource p (sf_getSource f p opts)
          else (case hooked of
                  None \<Rightarrow> prim PrimGetSource p (sf_getSource f p opts)
                | Some src \<Rightarrow> ret src))"

definition getSource :: "'b source_file \<Rightarrow> path \<Rightarrow> options \<Rightarrow> ('b, source) io" where
  "getSource f p opts =
     bnd (getSource_source f p opts)
       (\<lambda>src.
     bnd (if ignoreHook opts then ret ()
          else (case sf_afterGet f of
                  None \<Rightarrow> ret ()
                | Some h \<Rightarrow>
                    bnd (not_awaited (hook_call AfterGet p (h p src))) (\<lambda>promise. ret ())))
       (\<lambda>u. ret src))"

section \<open>The later file system and file (errors through createError)\<close>

text \<open>
  Modelled from the spec: \<^verbatim>\<open>createError\<close>, whose file (errors.ts) is not among the
  sources. The later classes build every error they throw with
  \<^verbatim>\<open>createError({ name, repository, path, e })\<close>, where \<^verbatim>\<open>e\<close> is the error
  that was caught, if any. The spec has every failure classified into exactly one kind,
  the backend's own errors being normalised by the layer, and has \<^verbatim>\<open>head\<close> fail
  with \<^verbatim>\<open>NotFound\<close> if the entry is absent and with \<^verbatim>\<open>NotReadable\<close> if the
  primitive fails for any other reason: an error that already has a kind keeps it, and an
  error of the backend gets the kind that is asked for. The callers in the sources rely on
  the same: \<^verbatim>\<open>write\<close> and \<^verbatim>\<open>mkcol\<close> test
  \<^verbatim>\<open>e.name === NotFoundError.name\<close> on what \<^verbatim>\<open>head\<close> throws.
\<close>

definition createError :: "error_name \<Rightarrow> string \<Rightarrow> path \<Rightarrow> error option \<Rightarrow> error" where
  "createError n repo p cause =
     (case cause of
        None \<Rightarrow> Error n repo p
      | Some e \<Rightarrow> if err_name e = BackendError then Error n repo p else e)"

text \<open>
  \<^verbatim>\<open>AbstractFileSystem.head\<close> of the later file system:
  \<^verbatim>\<open>
  public async head(path, options?: HeadOptions, errors?: FileSystemError[]) {
    try {
      options = { ...options };
      if (!options.type) {
        if (path.endsWith("/")) {
          options.type = EntryType.Directory;
        }
      }
      const checked = this._checkPath(path);
      if (options.type === EntryType.Directory) {
        if (!this.supportDirectory()) {
          return {};
        }
      }
      let stats: Stats | null | undefined;
      if (!options.ignoreHook && this.beforeHead) {
        stats = await this.beforeHead(checked, options);
      }
      if (!stats) {
        stats = await this._head(checked, options);
      }
      if (stats.size != null && options.type === EntryType.Directory) {
        throw createError({ name: TypeMismatchError.name, repository, path: checked, ... });
      }
      if (stats.size == null && options.type === EntryType.File) {
        throw createError({ name: TypeMismatchError.name, repository, path: checked, ... });
      }
      if (!options.ignoreHook && this.afterHead) {
        await this.afterHead(checked, stats);
      }
      return stats;
    } catch (e) {
      this._handleError(NotReadableError.name, path, errors, { e });
      return null;
    }
  }
  \<close>
  \<^verbatim>\<open>_handleError\<close> builds the error with \<^verbatim>\<open>createError\<close> and appends it to
  \<^verbatim>\<open>errors\<close> when the caller gave that array, and throws it otherwise.
  \<^verbatim>\<open>_checkPath\<close> throws a \<^verbatim>\<open>SyntaxError\<close> when the regular expression
  \<^verbatim>\<open>INVALID_CHARS\<close> (not among the sources: a parameter) matches the path, and
  returns \<^verbatim>\<open>normalizePath(path)\<close> otherwise.
\<close>

datatype EntryType = File | Directory

record HeadOptions =
  ho_ignoreHook :: bool
  ho_type :: "EntryType option"

record 'b AbstractFileSystem =
  afs_repository :: string
  afs_beforeHead :: "(path \<Rightarrow> HeadOptions \<Rightarrow> ('b, stats option) call) option"
  afs_afterHead :: "(path \<Rightarrow> stats \<Rightarrow> ('b, unit) call) option"
  afs_head :: "path \<Rightarrow> HeadOptions \<Rightarrow> ('b, stats) call"
  afs_supportDirectory :: bool
  afs_INVALID_CHARS :: "path \<Rightarrow> bool"

definition checkPath :: "'b AbstractFileSystem \<Rightarrow> path \<Rightarrow> error + path" where
  "checkPath fs p =
     (if afs_INVALID_CHARS fs p then Inl (createError SyntaxError (afs_repository fs) p None)
      else normalizePath p)"

definition typed_options :: "path \<Rightarrow> HeadOptions \<Rightarrow> HeadOptions" where
  "typed_options p opts =
     (if ho_type opts = None \<and> p \<noteq> [] \<and> last p = CHR ''/''
      then opts\<lparr>ho_type := Some Directory\<rparr> else opts)"

definition AbstractFileSystem_head_try ::
  "'b AbstractFileSystem \<Rightarrow> path \<Rightarrow> HeadOptions \<Rightarrow> ('b, stats) io" where
  "AbstractFileSystem_head_try fs p opts =
     (case checkPath fs p of
        Inl e \<Rightarrow> throw e
      | Inr checked \<Rightarrow>
          if ho_type (typed_options p opts) = Some Directory \<and> \<not> afs_supportDirectory fs
          then ret no_stats
          else
            bnd (if ho_ignoreHook (typed_options p opts) then ret None
                 else (case afs_beforeHead fs of
                         None \<Rightarrow> ret None
                       | Some h \<Rightarrow> hook_call BeforeHead checked (h checked (typed_options p opts))))
              (\<lambda>hooked.
            bnd (case hooked of
                   None \<Rightarrow> prim PrimHead checked (afs_head fs checked (typed_options p opts))
                 | Some st \<Rightarrow> ret st)
              (\<lambda>st.
                 if stats_size st \<noteq> None \<and> ho_type (typed_options p opts) = Some Directory
                 then throw (createError TypeMismatchError (afs_repository fs) checked None)
                 else if stats_size st = None \<and> ho_type (typed_options p opts) = Some File
                 then throw (createError TypeMismatchError (afs_repository fs) checked None)
                 else
                   bnd (if ho_ignoreHook (typed_options p opts) then ret ()
                        else (case afs_afterHead fs of
                                None \<Rightarrow> ret ()
                              | Some h \<Rightarrow> hook_call AfterHead checked (h checked st)))
                     (\<lambda>u. ret st))))"

definition AbstractFileSystem_head ::
  "'b AbstractFileSystem \<Rightarrow> path \<Rightarrow> HeadOptions \<Rightarrow> error list option \<Rightarrow> 'b state
    \<Rightarrow> (error + stats option) \<times> error list option \<times> 'b state" where
  "AbstractFileSystem_head fs p opts errors s =
     (case AbstractFileSystem_head_try fs p opts s of
        (Inr st, s1) \<Rightarrow> (Inr (Some st), errors, s1)
      | (Inl e, s1) \<Rightarrow>
          (case errors of
             None \<Rightarrow> (Inl (createError NotReadableError (afs_repository fs) p (Some e)), None, s1)
           | Some es \<Rightarrow>
               (Inr None,
                Some (es @ [createError NotReadableError (afs_repository fs) p (Some e)]),
                s1)))"

text \<open>
  \<^verbatim>\<open>AbstractFile.write\<close> of the \<^verbatim>\<open>Source\<close>-based file:
  \<^verbatim>\<open>
  public async write(src: Source, options?: WriteOptions): Promise<void> {
    const path = this.path;
    const repository = this.fs.repository;
    let create: boolean;
    try {
      await this.head();
      if (options?.create) {
        throw createError({ name: PathExistError.name, repository, path });
      }
      create = false;
    } catch (e) {
      if (e.name === NotFoundError.name) {
        if (options?.create === false) {
          throw createError({ name: NotFoundError.name, repository, path, e });
        }
        create = true;
      } else {
        throw createError({ name: NotReadableError.name, repository, path, e });
      }
    }
    options = { append: options?.append ?? false, create };
    if (create) {
      if (this.beforePost) {
        if (await this.beforePost(path, src, options)) {
          return;
        }
      }
    } else {
      if (this.beforePut) {
        if (await this.beforePut(path, src, options)) {
          return;
        }
      }
    }
    await this._write(src, options);
    if (create) {
      if (this.afterPost) {
        this.afterPost(path, src).catch((e) => console.warn(e));
      }
    } else {
      if (this.afterPut) {
        this.afterPut(path, src).catch((e) => console.warn(e));
      }
    }
  }
  \<close>
  \<^verbatim>\<open>this.head()\<close> is abstract in this class: the field \<open>wf_head\<close>.
  \<open>write_mode\<close> is the method up to the point where \<^verbatim>\<open>create\<close> is known,
  \<open>write_as\<close> the rest of it, and \<open>before_write\<close> the call of the before hook.
\<close>

record WriteOptions =
  wo_append :: "bool option"
  wo_create :: "bool option"

record 'b write_file =
  wf_repository :: string
  wf_head :: "('b, stats) io"
  wf_beforePost :: "(path \<Rightarrow> source \<Rightarrow> WriteOptions \<Rightarrow> ('b, bool) call) option"
  wf_beforePut :: "(path \<Rightarrow> source \<Rightarrow> WriteOptions \<Rightarrow> ('b, bool) call) option"
  wf_afterPost :: "(path \<Rightarrow> source \<Rightarrow> ('b, unit) call) option"
  wf_afterPut :: "(path \<Rightarrow> source \<Rightarrow> ('b, unit) call) option"
  wf_write :: "path \<Rightarrow> source \<Rightarrow> WriteOptions \<Rightarrow> ('b, unit) call"

definition write_mode :: "'b write_file \<Rightarrow> path \<Rightarrow> WriteOptions option \<Rightarrow> ('b, bool) io" where
  "write_mode f p opts =
     try_catch
       (bnd (wf_head f)
          (\<lambda>st. if (case opts of None \<Rightarrow> False | Some given \<Rightarrow> wo_create given = Some True)
                then throw (createError PathExistsError (wf_repository f) p None)
                else ret False))
       (\<lambda>e. if err_name e = NotFoundError then
               (if (case opts of None \<Rightarrow> False | Some given \<Rightarrow> wo_create given = Some False)
                then throw (createError NotFoundError (wf_repository f) p (Some e))
                else ret True)
             else throw (createError NotReadableError (wf_repository f) p (Some e)))"

definition before_write ::
  "'b write_file \<Rightarrow> path \<Rightarrow> source \<Rightarrow> WriteOptions \<Rightarrow> bool \<Rightarrow> ('b, bool) io" where
  "before_write f p src options cr =
     (case (if cr then wf_beforePost f else wf_beforePut f) of
        None \<Rightarrow> ret False
      | Some h \<Rightarrow> hook_call (if cr then BeforePost else BeforePut) p (h p src options))"

definition write_as ::
  "'b write_file \<Rightarrow> path \<Rightarrow> source \<Rightarrow> WriteOptions \<Rightarrow> bool \<Rightarrow> ('b, unit) io" where
  "write_as f p src options cr =
     bnd (before_write f p src options cr)
       (\<lambda>handled.
          if handled then ret ()
          else bnd (prim PrimWrite p (wf_write f p src options))
            (\<lambda>u. case (if cr then wf_afterPost f else wf_afterPut f) of
                    None \<Rightarrow> ret ()
                  | Some h \<Rightarrow>
                      bnd (not_awaited (hook_call (if cr then AfterPost else AfterPut) p (h p src)))
                        (\<lambda>promise. ret ())))"

definition AbstractFile_write ::
  "'b write_file \<Rightarrow> path \<Rightarrow> source \<Rightarrow> WriteOptions option \<Rightarrow> ('b, unit) io" where
  "AbstractFile_write f p src opts =
     bnd (write_mode f p opts)
       (\<lambda>cr. write_as f p src
                \<lparr>wo_append = Some (case opts of
                                      None \<Rightarrow> False
                                    | Some given \<Rightarrow>
                                        (case wo_append given of None \<Rightarrow> False | Some a \<Rightarrow> a)),
                 wo_create = Some cr\<rparr>
                cr)"

section \<open>An in-memory backend\<close>

text \<open>
  Concrete backends are outside the layer; it only asks for the primitives. For concrete
  inputs the primitives are implemented over a table of nodes: a file with its bytes, a
  directory, or a link whose target is gone (a directory lists it, and a stat of it fails
  with \<^verbatim>\<open>NotFoundError\<close>, as \<^verbatim>\<open>ENOENT\<close> does in the Node backend). A read
  stream hands out what is left of the file in one chunk and then \<^verbatim>\<open>null\<close>; opening
  a write stream creates or empties the file and every write appends.
\<close>

datatype node = FileNode bytes | DirNode | BrokenLink

record memory =
  nodes :: "(path \<times> node) list"
  readers :: "(path \<times> bytes) list"

definition without :: "path \<Rightarrow> (path \<times> 'a) list \<Rightarrow> (path \<times> 'a) list" where
  "without p entries = filter (\<lambda>entry. fst entry \<noteq> p) entries"

definition mem_head :: "path \<Rightarrow> options \<Rightarrow> (memory, stats) call" where
  "mem_head p opts m =
     (case map_of (nodes m) p of
        None \<Rightarrow> (Inl (Error NotFoundError ''mem'' p), m)
      | Some n \<Rightarrow>
          (case n of
             FileNode content \<Rightarrow> (Inr (no_stats\<lparr>stats_size := Some (length content)\<rparr>), m)
           | DirNode \<Rightarrow> (Inr no_stats, m)
           | BrokenLink \<Rightarrow> (Inl (Error NotFoundError ''mem'' p), m)))"

definition mem_delete :: "path \<Rightarrow> options \<Rightarrow> (memory, unit) call" where
  "mem_delete p opts m =
     (case map_of (nodes m) p of
        None \<Rightarrow> (Inl (Error NotFoundError ''mem'' p), m)
      | Some n \<Rightarrow> (Inr (), m\<lparr>nodes := without p (nodes m)\<rparr>))"

definition mem_list :: "path \<Rightarrow> options \<Rightarrow> (memory, path list) call" where
  "mem_list p opts m =
     (case map_of (nodes m) p of
        None \<Rightarrow> (Inl (Error NotFoundError ''mem'' p), m)
      | Some n \<Rightarrow>
          (case n of
             FileNode content \<Rightarrow> (Inl (Error NotReadableError ''mem'' p), m)
           | DirNode \<Rightarrow>
               (Inr (filter (\<lambda>q. q \<noteq> p \<and> getParentPath q = Inr p) (map fst (nodes m))), m)
           | BrokenLink \<Rightarrow> (Inl (Error NotFoundError ''mem'' p), m)))"

definition mem_mkcol :: "path \<Rightarrow> options \<Rightarrow> (memory, unit) call" where
  "mem_mkcol p opts m =
     (case map_of (nodes m) p of
        None \<Rightarrow> (Inr (), m\<lparr>nodes := nodes m @ [(p, DirNode)]\<rparr>)
      | Some n \<Rightarrow> (Inr (), m))"

definition mem_openReadStream :: "path \<Rightarrow> options \<Rightarrow> (memory, unit) call" where
  "mem_openReadStream p opts m =
     (case map_of (nodes m) p of
        None \<Rightarrow> (Inl (Error NotFoundError ''mem'' p), m)
      | Some n \<Rightarrow>
          (case n of
             FileNode content \<Rightarrow> (Inr (), m\<lparr>readers := (p, content) # readers m\<rparr>)
           | DirNode \<Rightarrow> (Inl (Error NotReadableError ''mem'' p), m)
           | BrokenLink \<Rightarrow> (Inl (Error NotFoundError ''mem'' p), m)))"

definition mem_read :: "path \<Rightarrow> nat option \<Rightarrow> (memory, jsval) call" where
  "mem_read p sz m =
     (case map_of (readers m) p of
        None \<Rightarrow> (Inl (Error NotReadableError ''mem'' p), m)
      | Some rest \<Rightarrow>
          if rest = [] then (Inr JSnull, m)
          else (Inr (JSbuffer rest), m\<lparr>readers := (p, []) # readers m\<rparr>))"

definition mem_closeRead :: "path \<Rightarrow> (memory, unit) call" where
  "mem_closeRead p m = (Inr (), m\<lparr>readers := without p (readers m)\<rparr>)"

definition mem_openWriteStream :: "path \<Rightarrow> options \<Rightarrow> (memory, unit) call" where
  "mem_openWriteStream p opts m = (Inr (), m\<lparr>nodes := (p, FileNode []) # without p (nodes m)\<rparr>)"

definition mem_append :: "path \<Rightarrow> bytes \<Rightarrow> (memory, unit) call" where
  "mem_append p bs m =
     (case map_of (nodes m) p of
        None \<Rightarrow> (Inl (Error NotFoundError ''mem'' p), m)
      | Some n \<Rightarrow>
          (case n of
             FileNode content \<Rightarrow>
               (Inr (), m\<lparr>nodes := (p, FileNode (content @ bs)) # without p (nodes m)\<rparr>)
           | DirNode \<Rightarrow> (Inl (Error NoModificationAllowedError ''mem'' p), m)
           | BrokenLink \<Rightarrow> (Inl (Error NotFoundError ''mem'' p), m)))"

definition mem_write :: "path \<Rightarrow> jsval \<Rightarrow> (memory, unit) call" where
  "mem_write p buffer m =
     (case buffer of
        JSbuffer bs \<Rightarrow> mem_append p bs m
      | JSnull \<Rightarrow> (Inl (Error NoModificationAllowedError ''mem'' p), m)
      | JSundefined \<Rightarrow> (Inl (Error NoModificationAllowedError ''mem'' p), m)
      | JSpromise \<Rightarrow> (Inl (Error NoModificationAllowedError ''mem'' p), m))"

definition mem_closeWrite :: "path \<Rightarrow> (memory, unit) call" where
  "mem_closeWrite p m = (Inr (), m)"

definition mem_patch :: "path \<Rightarrow> props \<Rightarrow> options \<Rightarrow> (memory, unit) call" where
  "mem_patch p pr opts m =
     (case map_of (nodes m) p of
        None \<Rightarrow> (Inl (Error NotFoundError ''mem'' p), m)
      | Some n \<Rightarrow> (Inr (), m))"

definition no_hook :: "'b hook" where
  "no_hook = \<lparr>beforeHead = None, afterHead = None, beforeDelete = None, afterDelete = None,
     beforeList = None, afterList = None, beforeMkcol = None, afterMkcol = None,
     beforeGet = None, afterGet = None, beforePost = None, afterPost = None,
     beforePut = None, afterPut = None, beforePatch = None, afterPatch = None\<rparr>"

definition mem_fs :: "memory hook \<Rightarrow> memory filesystem" where
  "mem_fs hk = \<lparr>fs_repository = ''mem'', fs_hook = hk,
     prim_head = mem_head, prim_delete = mem_delete, prim_list = mem_list,
     prim_mkcol = mem_mkcol, prim_openReadStream = mem_openReadStream,
     prim_openWriteStream = mem_openWriteStream, prim_read = mem_read,
     prim_write = mem_write, prim_closeRead = mem_closeRead,
     prim_closeWrite = mem_closeWrite, prim_patch = mem_patch\<rparr>"

definition source_bytes :: "source \<Rightarrow> bytes" where
  "source_bytes src =
     (case src of
        Text t \<Rightarrow> map of_char t
      | Binary bs \<Rightarrow> bs
      | Encoded v enc \<Rightarrow> map of_char v)"

definition mem_stream :: "memory stream_prims" where
  "mem_stream = \<lparr>sp_close = mem_closeWrite,
     sp_truncate = (\<lambda>p sz m.
        case map_of (nodes m) p of
          None \<Rightarrow> (Inl (Error NotFoundError ''mem'' p), m)
        | Some n \<Rightarrow>
            (case n of
               FileNode content \<Rightarrow>
                 (Inr (), m\<lparr>nodes := (p, FileNode (take (nat sz) content)) # without p (nodes m)\<rparr>)
             | DirNode \<Rightarrow> (Inl (Error NoModificationAllowedError ''mem'' p), m)
             | BrokenLink \<Rightarrow> (Inl (Error NotFoundError ''mem'' p), m))),
     sp_write = (\<lambda>p src m.
        case mem_append p (source_bytes src) m of
          (Inl e, m') \<Rightarrow> (Inl e, m')
        | (Inr u, m') \<Rightarrow> (Inr (int (length (source_bytes src))), m')),
     sp_seek = (\<lambda>p start m. (Inr (), m))\<rparr>"

definition start :: "'b \<Rightarrow> 'b state" where
  "start b = \<lparr>backend = b, trace = [], copyErrors = []\<rparr>"

definition content_of :: "path \<Rightarrow> memory state \<Rightarrow> bytes option" where
  "content_of p s =
     (case map_of (nodes (backend s)) p of
        None \<Rightarrow> None
      | Some n \<Rightarrow>
          (case n of FileNode content \<Rightarrow> Some content | DirNode \<Rightarrow> None | BrokenLink \<Rightarrow> None))"

text \<open>The disks of the concrete inputs.\<close>

definition disk_file :: memory where
  "disk_file = \<lparr>nodes = [(''/'', DirNode), (''/a'', FileNode [1, 2, 3])], readers = []\<rparr>"

definition disk_empty_file :: memory where
  "disk_empty_file = \<lparr>nodes = [(''/'', DirNode), (''/e'', FileNode [])], readers = []\<rparr>"

definition disk_broken_child :: memory where
  "disk_broken_child =
     \<lparr>nodes = [(''/'', DirNode), (''/d'', DirNode), (''/d/x'', BrokenLink),
               (''/d/y'', FileNode [7])],
      readers = []\<rparr>"

definition disk_unlistable_child :: memory where
  "disk_unlistable_child =
     \<lparr>nodes = [(''/'', DirNode), (''/d'', DirNode), (''/d/e'', FileNode []),
               (''/d/y'', FileNode [7])],
      readers = []\<rparr>"

text \<open>Hook objects and backends of the concrete inputs: a hook that answers every
  \<^verbatim>\<open>head\<close> from a cache and listens to \<^verbatim>\<open>afterHead\<close>; hooks that only listen
  to \<^verbatim>\<open>afterGet\<close> and to \<^verbatim>\<open>afterPut\<close>; a backend whose read streams fail to
  close; two \<^verbatim>\<open>Source\<close>-based files whose \<^verbatim>\<open>beforeGet\<close> hook holds a text
  (the empty one, and \<^verbatim>\<open>abc\<close>) while the backend holds one byte; a hook that takes
  over every \<^verbatim>\<open>delete\<close> and listens to \<^verbatim>\<open>afterDelete\<close>, and one that only
  listens.\<close>

definition stat_cache :: "memory hook" where
  "stat_cache = no_hook\<lparr>
     beforeHead := Some (\<lambda>p opts m. (Inr (Some (no_stats\<lparr>stats_size := Some 4\<rparr>)), m)),
     afterHead := Some (\<lambda>p st m. (Inr (), m))\<rparr>"

definition get_logger :: "memory hook" where
  "get_logger = no_hook\<lparr>afterGet := Some (\<lambda>p m. (Inr (), m))\<rparr>"

definition put_logger :: "memory hook" where
  "put_logger = no_hook\<lparr>afterPut := Some (\<lambda>p m. (Inr (), m))\<rparr>"

definition failing_close_fs :: "memory filesystem" where
  "failing_close_fs =
     (mem_fs get_logger)\<lparr>prim_closeRead := (\<lambda>p m. (Inl (Error NotReadableError ''mem'' p), m))\<rparr>"

definition empty_text_cache :: "memory source_file" where
  "empty_text_cache = \<lparr>sf_beforeGet = Some (\<lambda>p opts m. (Inr (Some (Text [])), m)),
     sf_afterGet = None,
     sf_getSource = (\<lambda>p opts m. (Inr (Binary [9]), m))\<rparr>"

definition text_cache :: "memory source_file" where
  "text_cache = \<lparr>sf_beforeGet = Some (\<lambda>p opts m. (Inr (Some (Text ''abc'')), m)),
     sf_afterGet = Some (\<lambda>p src m. (Inr (), m)),
     sf_getSource = (\<lambda>p opts m. (Inr (Binary [9]), m))\<rparr>"

definition delete_guard :: "memory hook" where
  "delete_guard = no_hook\<lparr>
     beforeDelete := Some (\<lambda>p opts m. (Inr True, m)),
     afterDelete := Some (\<lambda>p m. (Inr (), m))\<rparr>"

definition delete_logger :: "memory hook" where
  "delete_logger = no_hook\<lparr>afterDelete := Some (\<lambda>p m. (Inr (), m))\<rparr>"

definition overwrite :: options where
  "overwrite = \<lparr>ignoreHook = False, create = Some False, bufferSize = None\<rparr>"

section \<open>Properties\<close>

lemmas io_defs =
  ret_def throw_def bnd_def try_catch_def not_awaited_def prim_def hook_call_def

subsection \<open>Copying a file\<close>

text \<open>The loop of \<^verbatim>\<open>AbstractFile._xmit\<close> ends after its first test, for every
  backend and every stream: the promise of \<^verbatim>\<open>rs.read()\<close> is not
  \<^verbatim>\<open>null\<close>, so one read is issued and \<^verbatim>\<open>ws.write\<close> is never called.\<close>

lemma copy_loop_reads_once_and_writes_nothing:
  "copy_loop fs rs ws s =
     Some (case ReadStream_read fs rs None s of
             (r, s1) \<Rightarrow> (case r of Inl e \<Rightarrow> rs | Inr (buffer, rs') \<Rightarrow> rs', ws, s1))"
  by (subst copy_loop.simps) (simp add: promise_of_def loose_eq_null_def split: prod.splits)

text \<open>
  C1 claims that after a copy of a file that completes without an error the destination
  holds the bytes of the source, all bytes having been read from the source stream and
  written to the destination stream in order. The file copy of core.ts does not do that:
  copying the file \<^verbatim>\<open>/a\<close>, which holds the bytes 1, 2, 3, to the absent path
  \<^verbatim>\<open>/b\<close> returns the empty error list, leaves \<^verbatim>\<open>/a\<close> as it was, creates
  \<^verbatim>\<open>/b\<close> with no byte in it, and never calls the write primitive of the stream.
\<close>

theorem copy_of_file_writes_no_byte:
  "map_option fst (fs_copy 1 (mem_fs no_hook) ''/a'' ''/b'' no_options (start disk_file)) = Some (Inr [])
   \<and> map_option (content_of ''/a'' \<circ> snd)
        (fs_copy 1 (mem_fs no_hook) ''/a'' ''/b'' no_options (start disk_file)) = Some (Some [1, 2, 3])
   \<and> map_option (content_of ''/b'' \<circ> snd)
        (fs_copy 1 (mem_fs no_hook) ''/a'' ''/b'' no_options (start disk_file)) = Some (Some [])
   \<and> map_option (filter (\<lambda>ev. ev = Prim PrimWrite ''/b'') \<circ> trace \<circ> snd)
        (fs_copy 1 (mem_fs no_hook) ''/a'' ''/b'' no_options (start disk_file)) = Some []"
  by code_simp

subsection \<open>Moving a file\<close>

text \<open>In \<^verbatim>\<open>AbstractFile._xmit\<close> the block guarded by \<^verbatim>\<open>move\<close> is an empty
  \<^verbatim>\<open>try\<close>: a move of a file is its copy.\<close>

lemma File_xmit_move_is_copy:
  "File_xmit fs this fso True opts s = File_xmit fs this fso False opts s"
  by (simp add: File_xmit_def io_defs split: prod.splits sum.splits fso.splits option.splits)

text \<open>
  C2 claims that after a move of a file that returns the empty error list the source path
  no longer exists. With core.ts, moving the file \<^verbatim>\<open>/a\<close> to \<^verbatim>\<open>/b\<close> returns the
  empty error list, a later \<^verbatim>\<open>head\<close> of \<^verbatim>\<open>/a\<close> still finds its three bytes,
  and the delete primitive was never called.
\<close>

theorem move_of_file_keeps_source:
  "map_option fst (fs_move 1 (mem_fs no_hook) ''/a'' ''/b'' no_options (start disk_file)) = Some (Inr [])
   \<and> map_option (fst \<circ> head (mem_fs no_hook) ''/a'' no_options \<circ> snd)
        (fs_move 1 (mem_fs no_hook) ''/a'' ''/b'' no_options (start disk_file))
       = Some (Inr (no_stats\<lparr>stats_size := Some 3\<rparr>))
   \<and> map_option (filter (\<lambda>ev. ev = Prim PrimDelete ''/a'') \<circ> trace \<circ> snd)
        (fs_move 1 (mem_fs no_hook) ''/a'' ''/b'' no_options (start disk_file)) = Some []"
  by code_simp

subsection \<open>Failures of the children of a directory\<close>

text \<open>
  C3 claims that a failure while a child of a directory is processed is appended to the
  error list, that the walk goes on with the siblings, and that copy and move never throw
  for it. In \<^verbatim>\<open>AbstractDirectory._xmit\<close> of core.ts the \<^verbatim>\<open>head\<close> of the child
  stands before the \<^verbatim>\<open>try\<close> block: copying the directory \<^verbatim>\<open>/d\<close>, whose first
  child \<^verbatim>\<open>/d/x\<close> is listed but cannot be stat'ed, rejects with that
  \<^verbatim>\<open>NotFoundError\<close>, records nothing in the error list, and never reaches the sibling
  \<^verbatim>\<open>/d/y\<close>, so \<^verbatim>\<open>/t/y\<close> does not exist afterwards.
\<close>

theorem failing_stat_of_child_aborts_walk:
  "map_option fst (fs_copy 2 (mem_fs no_hook) ''/d'' ''/t'' no_options (start disk_broken_child))
     = Some (Inl (Error NotFoundError ''mem'' ''/d/x''))
   \<and> map_option (copyErrors \<circ> snd)
        (fs_copy 2 (mem_fs no_hook) ''/d'' ''/t'' no_options (start disk_broken_child)) = Some []
   \<and> map_option (content_of ''/t/y'' \<circ> snd)
        (fs_copy 2 (mem_fs no_hook) ''/d'' ''/t'' no_options (start disk_broken_child)) = Some None"
  by code_simp

text \<open>A failure of the child's own \<^verbatim>\<open>_xmit\<close> is caught: the first child of
  \<^verbatim>\<open>/d\<close> is entered as a directory and cannot be listed, the error is recorded
  with the handles of the child, and the sibling \<^verbatim>\<open>/d/y\<close> is processed.\<close>

lemma failing_transfer_of_child_is_recorded:
  "map_option fst (fs_copy 2 (mem_fs no_hook) ''/d'' ''/t'' no_options (start disk_unlistable_child))
     = Some (Inr [XmitError (AbstractDirectory ''/d/e'') (AbstractDirectory ''/t/e'')
                    (Error NotReadableError ''mem'' ''/d/e'')])
   \<and> map_option (filter (\<lambda>ev. ev = Prim PrimOpenWriteStream ''/t/y'') \<circ> trace \<circ> snd)
        (fs_copy 2 (mem_fs no_hook) ''/d'' ''/t'' no_options (start disk_unlistable_child))
       = Some [Prim PrimOpenWriteStream ''/t/y'']"
  by code_simp

subsection \<open>Create and overwrite\<close>



text \<open>The whole-file \<^verbatim>\<open>write\<close> of the \<^verbatim>\<open>Source\<close>-based file makes the same
  four decisions. Its errors pass through \<^verbatim>\<open>createError\<close>, so the kinds below are
  those of the modelled \<open>createError\<close>.\<close>

lemma write_mode_cases:
  "wf_head f s = (Inl e, s1) \<Longrightarrow> err_name e = NotFoundError \<Longrightarrow> wo_create opts = Some False
     \<Longrightarrow> write_mode f p (Some opts) s = (Inl e, s1)"
  "wf_head f s = (Inr st, s2) \<Longrightarrow> wo_create opts = Some True
     \<Longrightarrow> write_mode f p (Some opts) s = (Inl (Error PathExistsError (wf_repository f) p), s2)"
  "wf_head f s = (Inl e, s1) \<Longrightarrow> err_name e = NotFoundError \<Longrightarrow> wo_create opts = None
     \<Longrightarrow> write_mode f p (Some opts) s = (Inr True, s1)"
  "wf_head f s = (Inr st, s2) \<Longrightarrow> wo_create opts = None
     \<Longrightarrow> write_mode f p (Some opts) s = (Inr False, s2)"
  by (simp_all add: write_mode_def createError_def ret_def throw_def bnd_def try_catch_def)

lemma write_create_check:
  "(wf_head f s = (Inl e, s1) \<and> err_name e = NotFoundError \<and> wo_create opts = Some False
      \<longrightarrow> AbstractFile_write f p src (Some opts) s = (Inl e, s1))
   \<and> (wf_head f s = (Inr st, s2) \<and> wo_create opts = Some True
      \<longrightarrow> AbstractFile_write f p src (Some opts) s
           = (Inl (Error PathExistsError (wf_repository f) p), s2))
   \<and> (wf_head f s = (Inl e, s1) \<and> err_name e = NotFoundError \<and> wo_create opts = None
      \<longrightarrow> AbstractFile_write f p src (Some opts) s
           = write_as f p src
               \<lparr>wo_append = Some (case wo_append opts of None \<Rightarrow> False | Some a \<Rightarrow> a),
                wo_create = Some True\<rparr> True s1)
   \<and> (wf_head f s = (Inr st, s2) \<and> wo_create opts = None
      \<longrightarrow> AbstractFile_write f p src (Some opts) s
           = write_as f p src
               \<lparr>wo_append = Some (case wo_append opts of None \<Rightarrow> False | Some a \<Rightarrow> a),
                wo_create = Some False\<rparr> False s2)"
  by (simp add: AbstractFile_write_def bnd_def write_mode_cases)

subsection \<open>head of an absent path\<close>

text \<open>
  C5: when \<^verbatim>\<open>head\<close> reaches the backend primitive (the hook is absent, ignored, or
  gave \<^verbatim>\<open>null\<close>) and the primitive fails with a \<^verbatim>\<open>NotFoundError\<close>, as it does
  for a path that does not exist, \<^verbatim>\<open>head\<close> fails with that very error.
\<close>

theorem head_surfaces_NotFound:
  assumes "before_head fs p opts s = (Inr None, s1)"
    and "prim_head fs p opts (backend s1) = (Inl e, b)"
    and "err_name e = NotFoundError"
  shows "fst (head fs p opts s) = Inl e \<and> err_name e = NotFoundError"
  using assms by (simp add: head_def head_stats_def io_defs)

text \<open>\<^verbatim>\<open>head\<close> of a path that was never written, on the in-memory backend.\<close>

theorem head_surfaces_NotFound_witness:
  "fst (head (mem_fs no_hook) ''/nothing'' no_options (start disk_file))
     = Inl (Error NotFoundError ''mem'' ''/nothing'')"
proof -
  have h1: "before_head (mem_fs no_hook) ''/nothing'' no_options (start disk_file) = (Inr None, start disk_file)"
    by (simp add: before_head_def no_options_def mem_fs_def no_hook_def io_defs)
  have h2: "prim_head (mem_fs no_hook) ''/nothing'' no_options (backend (start disk_file))
      = (Inl (Error NotFoundError ''mem'' ''/nothing''), disk_file)"
    by (simp add: mem_fs_def mem_head_def start_def disk_file_def)
  have h3: "err_name (Error NotFoundError ''mem'' ''/nothing'') = NotFoundError" by simp
  show ?thesis using head_surfaces_NotFound [OF h1 h2 h3] by simp
qed

text \<open>The \<^verbatim>\<open>head\<close> of the later file system wraps every failure with
  \<^verbatim>\<open>createError\<close> under the name \<^verbatim>\<open>NotReadableError\<close>; with the modelled
  \<open>createError\<close> the \<^verbatim>\<open>NotFoundError\<close> of the primitive comes out as it went
  in.\<close>

lemma typed_options_ignoreHook:
  "ho_ignoreHook (typed_options p opts) = ho_ignoreHook opts"
  by (simp add: typed_options_def)

lemma AbstractFileSystem_head_keeps_NotFound:
  assumes "checkPath fs p = Inr checked"
    and "afs_supportDirectory fs"
    and "ho_ignoreHook opts \<or> afs_beforeHead fs = None"
    and "afs_head fs checked (typed_options p opts) (backend s) = (Inl e, b)"
    and "err_name e = NotFoundError"
  shows "fst (AbstractFileSystem_head fs p opts None s) = Inl e"
proof -
  have "AbstractFileSystem_head_try fs p opts s
          = (Inl e, s\<lparr>backend := b, trace := trace s @ [Prim PrimHead checked]\<rparr>)"
    using assms
    by (auto simp add: AbstractFileSystem_head_try_def typed_options_ignoreHook
          ret_def bnd_def prim_def)
  then show ?thesis
    using assms(5) by (simp add: AbstractFileSystem_head_def createError_def)
qed

subsection \<open>Before hooks\<close>

text \<open>A result of the \<^verbatim>\<open>beforeHead\<close> hook, or a stream of the \<^verbatim>\<open>beforeGet\<close>
  hook of core.ts, is an object: it is used, and the primitive is not called.\<close>

lemma head_hook_result_skips_primitive:
  assumes "before_head fs p opts s = (Inr (Some st), s1)"
  shows "head_stats fs p opts s = (Inr st, s1) \<and> Prim PrimHead p \<notin> set (new_events s s1)"
  using assms
  by (auto simp add: head_stats_def before_head_def io_defs new_events_def split: if_splits option.splits prod.splits)

lemma openReadStream_hook_result_skips_primitive:
  assumes "\<not> ignoreHook opts"
    and "beforeGet (fs_hook fs) = Some h"
    and "h p opts (backend s) = (Inr (Some rs), b)"
  shows "openReadStream fs p opts s
           = (Inr rs, s\<lparr>backend := b, trace := trace s @ [Hook BeforeGet p]\<rparr>)"
  using assms by (simp add: openReadStream_def io_defs)

text \<open>
  C6 claims that a non-null result of a before hook is returned and keeps the backend
  primitive from being called. \<^verbatim>\<open>getSource\<close> tests the result of \<^verbatim>\<open>beforeGet\<close>
  with \<^verbatim>\<open>!source\<close>: when the hook returns the empty text, which is not
  \<^verbatim>\<open>null\<close>, \<^verbatim>\<open>_getSource\<close> is called all the same and its result is returned
  in place of the hook's.
\<close>

theorem getSource_ignores_empty_text_of_hook:
  "getSource empty_text_cache ''/a'' no_options (start disk_file)
     = (Inr (Binary [9]),
        (start disk_file)\<lparr>trace := [Hook BeforeGet ''/a'', Prim PrimGetSource ''/a'']\<rparr>)"
  by (simp add: getSource_def getSource_source_def before_getSource_def falsy_source_def io_defs empty_text_cache_def no_options_def start_def)

subsection \<open>After hooks\<close>

lemma head_stats_trace:
  "head_stats fs p opts s = (r, s1) \<Longrightarrow>
     \<exists>evs. trace s1 = trace s @ evs \<and> set evs \<subseteq> {Hook BeforeHead p, Prim PrimHead p}"
  by (auto simp add: head_stats_def before_head_def io_defs split: if_splits option.splits prod.splits sum.splits)

lemma getSource_source_trace:
  "getSource_source f p opts s = (r, s1) \<Longrightarrow>
     \<exists>evs. trace s1 = trace s @ evs \<and> set evs \<subseteq> {Hook BeforeGet p, Prim PrimGetSource p}"
  by (auto simp add: getSource_source_def before_getSource_def io_defs split: if_splits option.splits prod.splits sum.splits)

text \<open>
  C7 claims that the after hook does not fire when the before hook supplied the result.
  Here \<^verbatim>\<open>beforeHead\<close> supplies the \<^verbatim>\<open>Stats\<close>, the primitive is not called,
  and \<^verbatim>\<open>afterHead\<close> is called.
\<close>

theorem after_hook_fires_after_short_circuit:
  "trace (snd (head (mem_fs stat_cache) ''/a'' no_options (start disk_file)))
     = [Hook BeforeHead ''/a'', Hook AfterHead ''/a'']"
  by (simp add: head_def head_stats_def before_head_def io_defs mem_fs_def stat_cache_def no_hook_def no_options_def start_def)

text \<open>What each operation adds to the trace before its after hook is due.\<close>

lemma list_result_trace:
  "list_result fs p opts s = (r, s1) \<Longrightarrow>
     \<exists>evs. trace s1 = trace s @ evs \<and> set evs \<subseteq> {Hook BeforeList p, Prim PrimList p}"
  by (auto simp add: list_result_def before_list_def io_defs split: if_splits option.splits prod.splits sum.splits)

lemma before_delete_trace:
  "before_delete fs p opts s = (r, s1) \<Longrightarrow>
     \<exists>evs. trace s1 = trace s @ evs \<and> set evs \<subseteq> {Hook BeforeDelete p}"
  by (auto simp add: before_delete_def io_defs split: if_splits option.splits prod.splits)

lemma before_mkcol_trace:
  "before_mkcol fs p opts s = (r, s1) \<Longrightarrow>
     \<exists>evs. trace s1 = trace s @ evs \<and> set evs \<subseteq> {Hook BeforeMkcol p}"
  by (auto simp add: before_mkcol_def io_defs split: if_splits option.splits prod.splits)

lemma before_patch_trace:
  "before_patch fs p pr opts s = (r, s1) \<Longrightarrow>
     \<exists>evs. trace s1 = trace s @ evs \<and> set evs \<subseteq> {Hook BeforePatch p}"
  by (auto simp add: before_patch_def io_defs split: if_splits option.splits prod.splits)

lemma before_write_trace:
  "before_write f p src wopts cr s = (r, s1) \<Longrightarrow>
     \<exists>evs. trace s1 = trace s @ evs \<and> set evs \<subseteq> {Hook BeforePost p, Hook BeforePut p}"
  by (auto simp add: before_write_def io_defs split: if_splits option.splits prod.splits)

lemma head_trace:
  "head fs p opts s = (r, s1) \<Longrightarrow>
     \<exists>evs. trace s1 = trace s @ evs
        \<and> set evs \<subseteq> {Hook BeforeHead p, Prim PrimHead p, Hook AfterHead p}"
  by (auto simp add: head_def head_stats_def before_head_def io_defs split: if_splits option.splits prod.splits sum.splits)

lemma hooked_write_trace:
  "hooked_write i h p opts s = (r, s1) \<Longrightarrow>
     \<exists>evs. trace s1 = trace s @ evs \<and> set evs \<subseteq> {Hook i p}"
  by (auto simp add: hooked_write_def io_defs split: if_splits option.splits prod.splits)

lemma open_unless_hooked_trace:
  "open_unless_hooked fs p opts ws s = (r, s1) \<Longrightarrow>
     \<exists>evs. trace s1 = trace s @ evs \<and> set evs \<subseteq> {Prim PrimOpenWriteStream p}"
  by (auto simp add: open_unless_hooked_def io_defs split: if_splits option.splits prod.splits sum.splits)

lemma openWriteStream_try_trace:
  assumes "openWriteStream_try fs p opts s = (r, opts1, s1)"
  shows "\<exists>evs. trace s1 = trace s @ evs
        \<and> set evs \<subseteq> {Hook BeforeHead p, Prim PrimHead p, Hook AfterHead p, Hook BeforePut p}"
proof -
  obtain hr hs where h: "head fs p no_options s = (hr, hs)" by (cases "head fs p no_options s")
  from head_trace [OF h] obtain e1 where
    e1: "trace hs = trace s @ e1" "set e1 \<subseteq> {Hook BeforeHead p, Prim PrimHead p, Hook AfterHead p}"
    by blast
  show ?thesis
  proof (cases hr)
    case (Inl e)
    with assms h e1 show ?thesis by (auto simp add: openWriteStream_try_def)
  next
    case (Inr st)
    show ?thesis
    proof (cases "create opts = Some True")
      case True
      with assms h e1 Inr show ?thesis by (auto simp add: openWriteStream_try_def)
    next
      case False
      obtain wr wsx where w: "hooked_write BeforePut (beforePut (fs_hook fs)) p
                       (opts\<lparr>create := Some False\<rparr>) hs = (wr, wsx)"
        by (cases "hooked_write BeforePut (beforePut (fs_hook fs)) p (opts\<lparr>create := Some False\<rparr>) hs")
      from hooked_write_trace [OF w] obtain e2 where
        e2: "trace wsx = trace hs @ e2" "set e2 \<subseteq> {Hook BeforePut p}" by blast
      from assms h Inr False w have "s1 = wsx" by (simp add: openWriteStream_try_def)
      with e1 e2 have "trace s1 = trace s @ (e1 @ e2)" by simp
      moreover from e1 e2 have "set (e1 @ e2) \<subseteq> {Hook BeforeHead p, Prim PrimHead p, Hook AfterHead p, Hook BeforePut p}"
        by auto
      ultimately show ?thesis by blast
    qed
  qed
qed

lemma openWriteStream_trace:
  assumes "openWriteStream fs p opts s = (r, s')"
  shows "\<exists>evs. trace s' = trace s @ evs
        \<and> set evs \<subseteq> {Hook BeforeHead p, Prim PrimHead p, Hook AfterHead p, Hook BeforePut p,
                        Hook BeforePost p, Prim PrimOpenWriteStream p}"
proof -
  obtain tr opts1 s1 where t: "openWriteStream_try fs p opts s = (tr, opts1, s1)"
    by (cases "openWriteStream_try fs p opts s") auto
  from openWriteStream_try_trace [OF t] obtain e1 where
    e1: "trace s1 = trace s @ e1"
        "set e1 \<subseteq> {Hook BeforeHead p, Prim PrimHead p, Hook AfterHead p, Hook BeforePut p}"
    by blast
  show ?thesis
  proof (cases tr)
    case (Inr ws)
    with assms t have o: "open_unless_hooked fs p opts1 ws s1 = (r, s')"
      by (simp add: openWriteStream_def)
    from open_unless_hooked_trace [OF o] obtain e2 where
      e2: "trace s' = trace s1 @ e2" "set e2 \<subseteq> {Prim PrimOpenWriteStream p}" by blast
    from e1 e2 have "trace s' = trace s @ (e1 @ e2)" by simp
    moreover from e1 e2 have "set (e1 @ e2) \<subseteq> {Hook BeforeHead p, Prim PrimHead p, Hook AfterHead p,
        Hook BeforePut p, Hook BeforePost p, Prim PrimOpenWriteStream p}" by auto
    ultimately show ?thesis by blast
  next
    case (Inl e)
    show ?thesis
    proof (cases "err_name e = NotFoundError \<and> create opts1 \<noteq> Some False")
      case False
      with assms t Inl have "s' = s1" by (auto simp add: openWriteStream_def split: if_splits)
      with e1 show ?thesis by auto
    next
      case True
      obtain wr s2 where w: "hooked_write BeforePost (beforePost (fs_hook fs)) p
                         (opts1\<lparr>create := Some True\<rparr>) s1 = (wr, s2)"
        by (cases "hooked_write BeforePost (beforePost (fs_hook fs)) p (opts1\<lparr>create := Some True\<rparr>) s1")
      from hooked_write_trace [OF w] obtain e2 where
        e2: "trace s2 = trace s1 @ e2" "set e2 \<subseteq> {Hook BeforePost p}" by blast
      show ?thesis
      proof (cases wr)
        case (Inl e')
        with assms t \<open>tr = Inl e\<close> True w have "s' = s2"
          by (simp add: openWriteStream_def bnd_def)
        with e1 e2 have "trace s' = trace s @ (e1 @ e2)" by simp
        moreover from e1 e2 have "set (e1 @ e2) \<subseteq> {Hook BeforeHead p, Prim PrimHead p, Hook AfterHead p,
          Hook BeforePut p, Hook BeforePost p, Prim PrimOpenWriteStream p}" by auto
        ultimately show ?thesis by blast
      next
        case (Inr ws)
        with assms t \<open>tr = Inl e\<close> True w
        have o: "open_unless_hooked fs p (opts1\<lparr>create := Some True\<rparr>) ws s2 = (r, s')"
          by (simp add: openWriteStream_def bnd_def)
        from open_unless_hooked_trace [OF o] obtain e3 where
          e3: "trace s' = trace s2 @ e3" "set e3 \<subseteq> {Prim PrimOpenWriteStream p}" by blast
        from e1 e2 e3 have "trace s' = trace s @ (e1 @ e2 @ e3)" by simp
        moreover from e1 e2 e3 have "set (e1 @ e2 @ e3) \<subseteq> {Hook BeforeHead p, Prim PrimHead p,
          Hook AfterHead p, Hook BeforePut p, Hook BeforePost p, Prim PrimOpenWriteStream p}" by auto
        ultimately show ?thesis by blast
      qed
    qed
  qed
qed

text \<open>The operations whose before hook supplies the result: the after hook is called
  exactly when the result is there.\<close>

lemma after_head_iff:
  "(Hook AfterHead p \<in> set (new_events s (snd (head fs p opts s))))
     = (\<not> ignoreHook opts \<and> afterHead (fs_hook fs) \<noteq> None
        \<and> (\<exists>st s1. head_stats fs p opts s = (Inr st, s1)))"
proof -
  obtain r s1 where hs: "head_stats fs p opts s = (r, s1)" by (cases "head_stats fs p opts s")
  from head_stats_trace [OF hs] obtain evs where
    evs: "trace s1 = trace s @ evs" "set evs \<subseteq> {Hook BeforeHead p, Prim PrimHead p}" by blast
  show ?thesis using hs evs
    by (cases r) (auto simp add: head_def new_events_def io_defs split: option.splits prod.splits sum.splits)
qed

lemma after_list_iff:
  "(Hook AfterList p \<in> set (new_events s (snd (list_dir fs p opts s))))
     = (\<not> ignoreHook opts \<and> afterList (fs_hook fs) \<noteq> None
        \<and> (\<exists>l s1. list_result fs p opts s = (Inr l, s1)))"
proof -
  obtain r s1 where hs: "list_result fs p opts s = (r, s1)" by (cases "list_result fs p opts s")
  from list_result_trace [OF hs] obtain evs where
    evs: "trace s1 = trace s @ evs" "set evs \<subseteq> {Hook BeforeList p, Prim PrimList p}" by blast
  show ?thesis using hs evs
    by (cases r) (auto simp add: list_dir_def new_events_def io_defs split: option.splits prod.splits sum.splits)
qed

lemma after_get_iff:
  "(Hook AfterGet p \<in> set (new_events s (snd (getSource f p opts s))))
     = (\<not> ignoreHook opts \<and> sf_afterGet f \<noteq> None
        \<and> (\<exists>src s1. getSource_source f p opts s = (Inr src, s1)))"
proof -
  obtain r s1 where hs: "getSource_source f p opts s = (r, s1)" by (cases "getSource_source f p opts s")
  from getSource_source_trace [OF hs] obtain evs where
    evs: "trace s1 = trace s @ evs" "set evs \<subseteq> {Hook BeforeGet p, Prim PrimGetSource p}" by blast
  show ?thesis using hs evs
    by (cases r) (auto simp add: getSource_def new_events_def io_defs split: option.splits prod.splits sum.splits)
qed

text \<open>The operations whose before hook answers \<^verbatim>\<open>true\<close> to take the operation
  over: the after hook is called exactly when the hook did not take it over and the
  primitive succeeded.\<close>

lemma after_delete_iff:
  "(Hook AfterDelete p \<in> set (new_events s (snd (delete fs p opts s))))
     = (\<not> ignoreHook opts \<and> afterDelete (fs_hook fs) \<noteq> None
        \<and> (\<exists>s1 b. before_delete fs p opts s = (Inr False, s1)
                  \<and> prim_delete fs p opts (backend s1) = (Inr (), b)))"
proof -
  obtain r s1 where hs: "before_delete fs p opts s = (r, s1)" by (cases "before_delete fs p opts s")
  from before_delete_trace [OF hs] obtain evs where
    evs: "trace s1 = trace s @ evs" "set evs \<subseteq> {Hook BeforeDelete p}" by blast
  obtain q b where pd: "prim_delete fs p opts (backend s1) = (q, b)"
    by (cases "prim_delete fs p opts (backend s1)")
  show ?thesis using hs evs pd
    by (cases r; cases q)
       (auto simp add: delete_def new_events_def io_defs split: option.splits prod.splits sum.splits)
qed

lemma after_mkcol_iff:
  "(Hook AfterMkcol p \<in> set (new_events s (snd (mkcol fs p opts s))))
     = (\<not> ignoreHook opts \<and> afterMkcol (fs_hook fs) \<noteq> None
        \<and> (\<exists>s1 b. before_mkcol fs p opts s = (Inr False, s1)
                  \<and> prim_mkcol fs p opts (backend s1) = (Inr (), b)))"
proof -
  obtain r s1 where hs: "before_mkcol fs p opts s = (r, s1)" by (cases "before_mkcol fs p opts s")
  from before_mkcol_trace [OF hs] obtain evs where
    evs: "trace s1 = trace s @ evs" "set evs \<subseteq> {Hook BeforeMkcol p}" by blast
  obtain q b where pd: "prim_mkcol fs p opts (backend s1) = (q, b)"
    by (cases "prim_mkcol fs p opts (backend s1)")
  show ?thesis using hs evs pd
    by (cases r; cases q)
       (auto simp add: mkcol_def new_events_def io_defs split: option.splits prod.splits sum.splits)
qed

lemma after_patch_iff:
  "(Hook AfterPatch p \<in> set (new_events s (snd (patch fs p pr opts s))))
     = (afterPatch (fs_hook fs) \<noteq> None
        \<and> (\<exists>s1 b. before_patch fs p pr opts s = (Inr False, s1)
                  \<and> prim_patch fs p pr opts (backend s1) = (Inr (), b)))"
proof -
  obtain r s1 where hs: "before_patch fs p pr opts s = (r, s1)" by (cases "before_patch fs p pr opts s")
  from before_patch_trace [OF hs] obtain evs where
    evs: "trace s1 = trace s @ evs" "set evs \<subseteq> {Hook BeforePatch p}" by blast
  obtain q b where pd: "prim_patch fs p pr opts (backend s1) = (q, b)"
    by (cases "prim_patch fs p pr opts (backend s1)")
  show ?thesis using hs evs pd
    by (cases r; cases q)
       (auto simp add: patch_def new_events_def io_defs split: option.splits prod.splits sum.splits)
qed

lemma after_write_iff:
  "(Hook (if cr then AfterPost else AfterPut) p
       \<in> set (new_events s (snd (write_as f p src wopts cr s))))
     = ((if cr then wf_afterPost f else wf_afterPut f) \<noteq> None
        \<and> (\<exists>s1 b. before_write f p src wopts cr s = (Inr False, s1)
                  \<and> wf_write f p src wopts (backend s1) = (Inr (), b)))"
proof -
  obtain r s1 where hs: "before_write f p src wopts cr s = (r, s1)"
    by (cases "before_write f p src wopts cr s")
  from before_write_trace [OF hs] obtain evs where
    evs: "trace s1 = trace s @ evs" "set evs \<subseteq> {Hook BeforePost p, Hook BeforePut p}" by blast
  obtain q b where pd: "wf_write f p src wopts (backend s1) = (q, b)"
    by (cases "wf_write f p src wopts (backend s1)")
  show ?thesis using hs evs pd
    by (cases r; cases q; cases cr)
       (auto simp add: write_as_def new_events_def io_defs split: option.splits prod.splits sum.splits)
qed

text \<open>Opening a stream calls no after hook: \<^verbatim>\<open>afterGet\<close>, \<^verbatim>\<open>afterPost\<close>
  and \<^verbatim>\<open>afterPut\<close> are called when the stream is closed.\<close>

lemma openReadStream_calls_no_after_hook:
  "Hook AfterGet p \<notin> set (new_events s (snd (openReadStream fs p opts s)))"
  by (auto simp add: openReadStream_def new_events_def io_defs split: if_splits option.splits prod.splits sum.splits)

lemma openWriteStream_calls_no_after_hook:
  "Hook AfterPost p \<notin> set (new_events s (snd (openWriteStream fs p opts s)))
   \<and> Hook AfterPut p \<notin> set (new_events s (snd (openWriteStream fs p opts s)))"
proof -
  obtain r s' where o: "openWriteStream fs p opts s = (r, s')" by (cases "openWriteStream fs p opts s")
  from openWriteStream_trace [OF o] show ?thesis using o by (auto simp add: new_events_def)
qed

lemma openWriteStream_calls_no_afterPost:
  "Hook AfterPost p \<notin> set (new_events s (snd (openWriteStream fs p opts s)))"
  using openWriteStream_calls_no_after_hook [of p s fs opts] by simp

lemma openWriteStream_calls_no_afterPut:
  "Hook AfterPut p \<notin> set (new_events s (snd (openWriteStream fs p opts s)))"
  using openWriteStream_calls_no_after_hook [of p s fs opts] by simp

text \<open>
  C7 as amended, for every operation that has hooks. For \<^verbatim>\<open>delete\<close>,
  \<^verbatim>\<open>mkcol\<close>, \<^verbatim>\<open>patch\<close> and the whole-file \<^verbatim>\<open>write\<close>, whose before hook
  answers \<^verbatim>\<open>true\<close> to short-circuit, the after hook is called exactly when the before
  hook did not short-circuit and the primitive was executed and succeeded (and, for
  \<^verbatim>\<open>delete\<close> and \<^verbatim>\<open>mkcol\<close>, \<^verbatim>\<open>ignoreHook\<close> is unset): never after a
  short-circuit. \<^verbatim>\<open>openReadStream\<close> and \<^verbatim>\<open>openWriteStream\<close> call no after hook.
  For \<^verbatim>\<open>head\<close>, \<^verbatim>\<open>list\<close> and \<^verbatim>\<open>getSource\<close>, whose before hook supplies
  the result, the after hook is called exactly when \<^verbatim>\<open>ignoreHook\<close> is unset and the
  operation has obtained its result, from the before hook or from the primitive; it is not
  called when the before hook or the primitive failed.
\<close>

theorem after_hook_of_every_operation:
  "((Hook AfterDelete p \<in> set (new_events s (snd (delete fs p opts s))))
     = (\<not> ignoreHook opts \<and> afterDelete (fs_hook fs) \<noteq> None
        \<and> (\<exists>s1 b. before_delete fs p opts s = (Inr False, s1)
                  \<and> prim_delete fs p opts (backend s1) = (Inr (), b))))
   \<and> ((Hook AfterMkcol p \<in> set (new_events s (snd (mkcol fs p opts s))))
     = (\<not> ignoreHook opts \<and> afterMkcol (fs_hook fs) \<noteq> None
        \<and> (\<exists>s1 b. before_mkcol fs p opts s = (Inr False, s1)
                  \<and> prim_mkcol fs p opts (backend s1) = (Inr (), b))))
   \<and> ((Hook AfterPatch p \<in> set (new_events s (snd (patch fs p pr opts s))))
     = (afterPatch (fs_hook fs) \<noteq> None
        \<and> (\<exists>s1 b. before_patch fs p pr opts s = (Inr False, s1)
                  \<and> prim_patch fs p pr opts (backend s1) = (Inr (), b))))
   \<and> ((Hook (if cr then AfterPost else AfterPut) p
          \<in> set (new_events s (snd (write_as wfile p src wopts cr s))))
     = ((if cr then wf_afterPost wfile else wf_afterPut wfile) \<noteq> None
        \<and> (\<exists>s1 b. before_write wfile p src wopts cr s = (Inr False, s1)
                  \<and> wf_write wfile p src wopts (backend s1) = (Inr (), b))))
   \<and> Hook AfterGet p \<notin> set (new_events s (snd (openReadStream fs p opts s)))
   \<and> Hook AfterPost p \<notin> set (new_events s (snd (openWriteStream fs p opts s)))
   \<and> Hook AfterPut p \<notin> set (new_events s (snd (openWriteStream fs p opts s)))
   \<and> ((Hook AfterHead p \<in> set (new_events s (snd (head fs p opts s))))
     = (\<not> ignoreHook opts \<and> afterHead (fs_hook fs) \<noteq> None
        \<and> (\<exists>st s1. head_stats fs p opts s = (Inr st, s1))))
   \<and> ((Hook AfterList p \<in> set (new_events s (snd (list_dir fs p opts s))))
     = (\<not> ignoreHook opts \<and> afterList (fs_hook fs) \<noteq> None
        \<and> (\<exists>l s1. list_result fs p opts s = (Inr l, s1))))
   \<and> ((Hook AfterGet p \<in> set (new_events s (snd (getSource sf p opts s))))
     = (\<not> ignoreHook opts \<and> sf_afterGet sf \<noteq> None
        \<and> (\<exists>got s1. getSource_source sf p opts s = (Inr got, s1))))"
  by (intro conjI after_delete_iff after_mkcol_iff after_patch_iff after_write_iff
        openReadStream_calls_no_after_hook openWriteStream_calls_no_afterPost
        openWriteStream_calls_no_afterPut after_head_iff after_list_iff after_get_iff)

text \<open>A \<^verbatim>\<open>delete\<close> that the before hook takes over and one that it does not; a
  \<^verbatim>\<open>head\<close> and a \<^verbatim>\<open>getSource\<close> whose before hook supplies the result.\<close>

theorem after_hook_of_every_operation_witness:
  "Hook AfterDelete ''/a'' \<notin> set (new_events (start disk_file)
       (snd (delete (mem_fs delete_guard) ''/a'' no_options (start disk_file))))
   \<and> Hook AfterDelete ''/a'' \<in> set (new_events (start disk_file)
       (snd (delete (mem_fs delete_logger) ''/a'' no_options (start disk_file))))
   \<and> Hook AfterHead ''/a'' \<in> set (new_events (start disk_file)
       (snd (head (mem_fs stat_cache) ''/a'' no_options (start disk_file))))
   \<and> Hook AfterGet ''/a'' \<in> set (new_events (start disk_file)
       (snd (getSource text_cache ''/a'' no_options (start disk_file))))"
proof -
  have g: "before_delete (mem_fs delete_guard) ''/a'' no_options (start disk_file)
             = (Inr True, (start disk_file)\<lparr>trace := [Hook BeforeDelete ''/a'']\<rparr>)"
    by (simp add: before_delete_def io_defs no_options_def mem_fs_def delete_guard_def no_hook_def start_def)
  have l1: "\<not> ignoreHook no_options \<and> afterDelete (fs_hook (mem_fs delete_logger)) \<noteq> None"
    by (simp add: no_options_def mem_fs_def delete_logger_def no_hook_def)
  have l2: "\<exists>s1 b. before_delete (mem_fs delete_logger) ''/a'' no_options (start disk_file) = (Inr False, s1)
              \<and> prim_delete (mem_fs delete_logger) ''/a'' no_options (backend s1) = (Inr (), b)"
    by (simp add: before_delete_def io_defs no_options_def mem_fs_def delete_logger_def no_hook_def
          start_def mem_delete_def disk_file_def)
  have h1: "\<not> ignoreHook no_options \<and> afterHead (fs_hook (mem_fs stat_cache)) \<noteq> None"
    by (simp add: no_options_def mem_fs_def stat_cache_def no_hook_def)
  have h2: "\<exists>st s1. head_stats (mem_fs stat_cache) ''/a'' no_options (start disk_file) = (Inr st, s1)"
    by (simp add: head_stats_def before_head_def io_defs no_options_def mem_fs_def stat_cache_def no_hook_def)
  have g1: "\<not> ignoreHook no_options \<and> sf_afterGet text_cache \<noteq> None"
    by (simp add: no_options_def text_cache_def)
  have g2: "\<exists>got s1. getSource_source text_cache ''/a'' no_options (start disk_file) = (Inr got, s1)"
    by (simp add: getSource_source_def before_getSource_def falsy_source_def io_defs no_options_def text_cache_def)
  from after_hook_of_every_operation
         [where fs = "mem_fs delete_guard" and p = "''/a''" and opts = no_options
            and s = "start disk_file"] g
  have c1: "Hook AfterDelete ''/a'' \<notin> set (new_events (start disk_file)
       (snd (delete (mem_fs delete_guard) ''/a'' no_options (start disk_file))))"
    by simp
  from after_hook_of_every_operation
         [where fs = "mem_fs delete_logger" and p = "''/a''" and opts = no_options
            and s = "start disk_file"] l1 l2
  have c2: "Hook AfterDelete ''/a'' \<in> set (new_events (start disk_file)
       (snd (delete (mem_fs delete_logger) ''/a'' no_options (start disk_file))))"
    by simp
  from after_hook_of_every_operation
         [where fs = "mem_fs stat_cache" and p = "''/a''" and opts = no_options
            and s = "start disk_file" and sf = text_cache] h1 h2 g1 g2
  have c3: "Hook AfterHead ''/a'' \<in> set (new_events (start disk_file)
       (snd (head (mem_fs stat_cache) ''/a'' no_options (start disk_file))))
   \<and> Hook AfterGet ''/a'' \<in> set (new_events (start disk_file)
       (snd (getSource text_cache ''/a'' no_options (start disk_file))))"
    by simp
  from c1 c2 c3 show ?thesis by simp
qed

subsection \<open>Closing a write stream\<close>

lemma aws_run_changed:
  "aws_run fs pr calls ws s = (ws', s') \<Longrightarrow> changed ws' \<Longrightarrow> changed ws \<or> list_ex mutating calls"
proof (induction calls arbitrary: ws s)
  case Nil
  then show ?case by simp
next
  case (Cons c calls)
  show ?case
  proof (cases c)
    case (CallWrite src)
    then show ?thesis by simp
  next
    case (CallTruncate sz)
    then show ?thesis by simp
  next
    case (CallSeek offset origin)
    obtain r ws1 s1 where sk: "aws_seek fs pr offset origin ws s = (r, ws1, s1)"
      by (cases "aws_seek fs pr offset origin ws s") auto
    then have same: "changed ws1 = changed ws"
      by (auto simp add: aws_seek_def split: prod.splits sum.splits)
    from Cons.prems CallSeek sk have "aws_run fs pr calls ws1 s1 = (ws', s')" by simp
    from Cons.IH [OF this Cons.prems(2)] same CallSeek show ?thesis by simp
  qed
qed

lemma aws_run_identity:
  "aws_run fs pr calls ws s = (ws', s') \<Longrightarrow> aws_path ws' = aws_path ws \<and> aws_options ws' = aws_options ws"
proof (induction calls arbitrary: ws s)
  case Nil
  then show ?case by simp
next
  case (Cons c calls)
  show ?case
  proof (cases c)
    case (CallWrite src)
    obtain r ws1 s1 where st: "aws_write pr src ws s = (r, ws1, s1)"
      by (cases "aws_write pr src ws s") auto
    then have same: "aws_path ws1 = aws_path ws \<and> aws_options ws1 = aws_options ws"
      by (auto simp add: aws_write_def split: prod.splits sum.splits)
    from Cons.prems CallWrite st have "aws_run fs pr calls ws1 s1 = (ws', s')" by simp
    from Cons.IH [OF this] same show ?thesis by simp
  next
    case (CallTruncate sz)
    obtain r ws1 s1 where st: "aws_truncate pr sz ws s = (r, ws1, s1)"
      by (cases "aws_truncate pr sz ws s") auto
    then have same: "aws_path ws1 = aws_path ws \<and> aws_options ws1 = aws_options ws"
      by (auto simp add: aws_truncate_def split: prod.splits sum.splits)
    from Cons.prems CallTruncate st have "aws_run fs pr calls ws1 s1 = (ws', s')" by simp
    from Cons.IH [OF this] same show ?thesis by simp
  next
    case (CallSeek offset origin)
    obtain r ws1 s1 where st: "aws_seek fs pr offset origin ws s = (r, ws1, s1)"
      by (cases "aws_seek fs pr offset origin ws s") auto
    then have same: "aws_path ws1 = aws_path ws \<and> aws_options ws1 = aws_options ws"
      by (auto simp add: aws_seek_def split: prod.splits sum.splits)
    from Cons.prems CallSeek st have "aws_run fs pr calls ws1 s1 = (ws', s')" by simp
    from Cons.IH [OF this] same show ?thesis by simp
  qed
qed

lemma aws_close_events:
  "aws_close fs pr ws s = (r, ws', s') \<Longrightarrow>
     new_events s s' =
       Prim PrimCloseWrite (aws_path ws) #
       (if fst (sp_close pr (aws_path ws) (backend s)) = Inr () \<and> changed ws
           \<and> \<not> ignoreHook (aws_options ws)
        then (if create (aws_options ws) = Some True
              then (case afterPost (fs_hook fs) of None \<Rightarrow> [] | Some h \<Rightarrow> [Hook AfterPost (aws_path ws)])
              else (case afterPut (fs_hook fs) of None \<Rightarrow> [] | Some h \<Rightarrow> [Hook AfterPut (aws_path ws)]))
        else [])"
  by (auto simp add: aws_close_def io_defs new_events_def split: prod.splits sum.splits option.splits if_splits)

lemma setLength_fails:
  "\<exists>e s'. WriteStream_setLength frames fs ws len s = (Inl e, s')"
  by (induction frames) (auto simp add: io_defs)

lemma core_run_handled:
  "core_run frames fs calls ws s = (ws', s') \<Longrightarrow> ws_handled ws' \<Longrightarrow> ws_handled ws \<or> list_ex core_write calls"
proof (induction calls arbitrary: ws s)
  case Nil
  then show ?case by simp
next
  case (Cons c calls)
  show ?case
  proof (cases c)
    case (CoreWrite buffer)
    then show ?thesis by simp
  next
    case (CoreSetLength len)
    from setLength_fails obtain e s1 where f: "WriteStream_setLength frames fs ws len s = (Inl e, s1)" by blast
    from Cons.prems CoreSetLength f have "core_run frames fs calls ws s1 = (ws', s')" by simp
    from Cons.IH [OF this Cons.prems(2)] CoreSetLength show ?thesis by simp
  qed
qed

lemma core_run_identity:
  "core_run frames fs calls ws s = (ws', s') \<Longrightarrow> ws_path ws' = ws_path ws \<and> ws_options ws' = ws_options ws"
proof (induction calls arbitrary: ws s)
  case Nil
  then show ?case by simp
next
  case (Cons c calls)
  show ?case
  proof (cases c)
    case (CoreWrite buffer)
    show ?thesis
    proof (cases "WriteStream_write fs ws buffer s")
      case (Pair r s1)
      show ?thesis
      proof (cases r)
        case (Inl e)
        with Cons.prems CoreWrite Pair have "core_run frames fs calls ws s1 = (ws', s')" by simp
        from Cons.IH [OF this] show ?thesis .
      next
        case (Inr ws1)
        with Pair have same: "ws_path ws1 = ws_path ws \<and> ws_options ws1 = ws_options ws"
          by (auto simp add: WriteStream_write_def io_defs split: prod.splits sum.splits)
        from Cons.prems CoreWrite Pair Inr have "core_run frames fs calls ws1 s1 = (ws', s')" by simp
        from Cons.IH [OF this] same show ?thesis by simp
      qed
    qed
  next
    case (CoreSetLength len)
    from setLength_fails obtain e s1 where f: "WriteStream_setLength frames fs ws len s = (Inl e, s1)" by blast
    from Cons.prems CoreSetLength f have "core_run frames fs calls ws s1 = (ws', s')" by simp
    from Cons.IH [OF this] show ?thesis .
  qed
qed

lemma WriteStream_close_events:
  "WriteStream_close fs ws s = (r, s') \<Longrightarrow>
     new_events s s' =
       Prim PrimCloseWrite (ws_path ws) #
       (if fst (prim_closeWrite fs (ws_path ws) (backend s)) = Inr () \<and> ws_handled ws
           \<and> \<not> ignoreHook (ws_options ws)
        then (if create (ws_options ws) = Some True
              then (case afterPost (fs_hook fs) of None \<Rightarrow> [] | Some h \<Rightarrow> [Hook AfterPost (ws_path ws)])
              else (case afterPut (fs_hook fs) of None \<Rightarrow> [] | Some h \<Rightarrow> [Hook AfterPut (ws_path ws)]))
        else [])"
  by (auto simp add: WriteStream_close_def io_defs new_events_def split: prod.splits sum.splits option.splits if_splits)

text \<open>
  C9: on a write stream that was opened and then used by any sequence of calls,
  \<^verbatim>\<open>close\<close> calls \<^verbatim>\<open>afterPost\<close> or \<^verbatim>\<open>afterPut\<close> only if one of the calls
  was a mutating one (\<^verbatim>\<open>write\<close> or \<^verbatim>\<open>truncate\<close>; in core.ts a \<^verbatim>\<open>write\<close>,
  since \<^verbatim>\<open>setLength\<close> never completes), and the hook it calls is \<^verbatim>\<open>afterPost\<close>
  exactly when the stream was opened in create mode. The first half is the stream of
  AbstractWriteStream.ts, the second the stream of core.ts.
\<close>

theorem write_notification_needs_mutation:
  "(aws_run fs pr calls (opened p opts) s0 = (ws, s) \<and> aws_close fs pr ws s = (r, ws', s')
      \<and> (Hook AfterPost p \<in> set (new_events s s') \<or> Hook AfterPut p \<in> set (new_events s s'))
     \<longrightarrow> list_ex mutating calls
         \<and> (Hook AfterPost p \<in> set (new_events s s')) = (create opts = Some True))
   \<and> (core_run frames fs ccalls \<lparr>ws_path = p, ws_options = opts, ws_handled = False\<rparr> s0 = (cws, cs)
      \<and> WriteStream_close fs cws cs = (cr, cs')
      \<and> (Hook AfterPost p \<in> set (new_events cs cs') \<or> Hook AfterPut p \<in> set (new_events cs cs'))
     \<longrightarrow> list_ex core_write ccalls
         \<and> (Hook AfterPost p \<in> set (new_events cs cs')) = (create opts = Some True))"
proof (intro conjI impI)
  assume a: "aws_run fs pr calls (opened p opts) s0 = (ws, s) \<and> aws_close fs pr ws s = (r, ws', s')
      \<and> (Hook AfterPost p \<in> set (new_events s s') \<or> Hook AfterPut p \<in> set (new_events s s'))"
  then have run: "aws_run fs pr calls (opened p opts) s0 = (ws, s)"
    and cl: "aws_close fs pr ws s = (r, ws', s')"
    and fired: "Hook AfterPost p \<in> set (new_events s s') \<or> Hook AfterPut p \<in> set (new_events s s')"
    by simp_all
  from aws_run_identity [OF run] have idn: "aws_path ws = p" "aws_options ws = opts"
    by (simp_all add: opened_def)
  from fired aws_close_events [OF cl] have ch: "changed ws"
    by (auto split: if_splits)
  from aws_run_changed [OF run ch] show "list_ex mutating calls" by (simp add: opened_def)
  from fired aws_close_events [OF cl] idn
  show "(Hook AfterPost p \<in> set (new_events s s')) = (create opts = Some True)"
    by (auto split: if_splits option.splits)
next
  assume a: "core_run frames fs ccalls \<lparr>ws_path = p, ws_options = opts, ws_handled = False\<rparr> s0 = (cws, cs)
      \<and> WriteStream_close fs cws cs = (cr, cs')
      \<and> (Hook AfterPost p \<in> set (new_events cs cs') \<or> Hook AfterPut p \<in> set (new_events cs cs'))"
  then have run: "core_run frames fs ccalls \<lparr>ws_path = p, ws_options = opts, ws_handled = False\<rparr> s0 = (cws, cs)"
    and cl: "WriteStream_close fs cws cs = (cr, cs')"
    and fired: "Hook AfterPost p \<in> set (new_events cs cs') \<or> Hook AfterPut p \<in> set (new_events cs cs')"
    by simp_all
  from core_run_identity [OF run] have idn: "ws_path cws = p" "ws_options cws = opts"
    by simp_all
  from fired WriteStream_close_events [OF cl] have ch: "ws_handled cws"
    by (auto split: if_splits)
  from core_run_handled [OF run ch] show "list_ex core_write ccalls" by simp
  from fired WriteStream_close_events [OF cl] idn
  show "(Hook AfterPost p \<in> set (new_events cs cs')) = (create opts = Some True)"
    by (auto split: if_splits option.splits)
qed

text \<open>A seek and a write, then close, on a stream opened for overwriting; and the stream
  of core.ts after a \<^verbatim>\<open>setLength\<close> and a \<^verbatim>\<open>write\<close>.\<close>

theorem write_notification_needs_mutation_witness:
  "list_ex mutating [CallSeek 0 Begin, CallWrite (Text ''hi'')]
   \<and> Hook AfterPost ''/a'' \<notin> set (new_events
        (snd (aws_run (mem_fs put_logger) mem_stream [CallSeek 0 Begin, CallWrite (Text ''hi'')]
                (opened ''/a'' overwrite) (start disk_file)))
        (snd (snd (aws_close (mem_fs put_logger) mem_stream
           (fst (aws_run (mem_fs put_logger) mem_stream [CallSeek 0 Begin, CallWrite (Text ''hi'')]
                   (opened ''/a'' overwrite) (start disk_file)))
           (snd (aws_run (mem_fs put_logger) mem_stream [CallSeek 0 Begin, CallWrite (Text ''hi'')]
                   (opened ''/a'' overwrite) (start disk_file)))))))
   \<and> list_ex core_write [CoreSetLength 0, CoreWrite (JSbuffer [1])]"
proof -
  let ?fs = "mem_fs put_logger"
  let ?calls = "[CallSeek 0 Begin, CallWrite (Text ''hi'')]"
  let ?run = "aws_run ?fs mem_stream ?calls (opened ''/a'' overwrite) (start disk_file)"
  let ?close = "aws_close ?fs mem_stream (fst ?run) (snd ?run)"
  let ?ccalls = "[CoreSetLength 0, CoreWrite (JSbuffer [1])]"
  let ?crun = "core_run 8 ?fs ?ccalls \<lparr>ws_path = ''/a'', ws_options = overwrite, ws_handled = False\<rparr>
                 (start disk_file)"
  let ?cclose = "WriteStream_close ?fs (fst ?crun) (snd ?crun)"
  have fired: "Hook AfterPost ''/a'' \<in> set (new_events (snd ?run) (snd (snd ?close)))
      \<or> Hook AfterPut ''/a'' \<in> set (new_events (snd ?run) (snd (snd ?close)))"
    by code_simp
  have cfired: "Hook AfterPost ''/a'' \<in> set (new_events (snd ?crun) (snd ?cclose))
      \<or> Hook AfterPut ''/a'' \<in> set (new_events (snd ?crun) (snd ?cclose))"
    by code_simp
  have mode: "create overwrite \<noteq> Some True" by (simp add: overwrite_def)
  from write_notification_needs_mutation
         [where fs = ?fs and pr = mem_stream and calls = ?calls and p = "''/a''"
            and opts = overwrite and ?s0.0 = "start disk_file" and ws = "fst ?run"
            and s = "snd ?run" and r = "fst ?close" and ws' = "fst (snd ?close)"
            and s' = "snd (snd ?close)" and frames = 8 and ccalls = ?ccalls
            and cws = "fst ?crun" and cs = "snd ?crun" and cr = "fst ?cclose"
            and cs' = "snd ?cclose"]
       fired cfired mode
  show ?thesis by simp
qed

subsection \<open>Closing a read stream\<close>

text \<open>
  C10 claims that \<^verbatim>\<open>close\<close> of a read stream always calls a registered
  \<^verbatim>\<open>afterGet\<close>. \<^verbatim>\<open>close\<close> awaits \<^verbatim>\<open>_close\<close> first: when that fails,
  the hook is not called.
\<close>

theorem ReadStream_close_skips_hook_when_close_fails:
  "\<not> ignoreHook no_options \<and> afterGet (fs_hook failing_close_fs) \<noteq> None
   \<and> Hook AfterGet ''/a'' \<notin> set (trace (snd (ReadStream_close failing_close_fs
         \<lparr>rs_path = ''/a'', rs_options = no_options, rs_handled = False\<rparr> (start disk_file))))"
  by (simp add: ReadStream_close_def io_defs failing_close_fs_def mem_fs_def get_logger_def no_hook_def no_options_def start_def)

text \<open>
  C10 as amended: with \<^verbatim>\<open>afterGet\<close> registered and \<^verbatim>\<open>ignoreHook\<close> unset,
  whenever \<^verbatim>\<open>_close\<close> succeeds, \<^verbatim>\<open>close\<close> succeeds and calls \<^verbatim>\<open>afterGet\<close>
  for the path of the stream; whenever \<^verbatim>\<open>_close\<close> fails, \<^verbatim>\<open>close\<close> rejects
  with the error of \<^verbatim>\<open>_close\<close> and calls no hook. Whether a read was ever made plays no
  part: the result does not depend on the flag \<^verbatim>\<open>handled\<close>.
\<close>

theorem ReadStream_close_notifies:
  assumes "\<not> ignoreHook (rs_options rs)"
    and "afterGet (fs_hook fs) = Some h"
  shows "(prim_closeRead fs (rs_path rs) (backend s) = (Inr (), b) \<longrightarrow>
            fst (ReadStream_close fs rs s) = Inr ()
          \<and> backend (snd (ReadStream_close fs rs s)) = snd (h (rs_path rs) b)
          \<and> new_events s (snd (ReadStream_close fs rs s))
              = [Prim PrimCloseRead (rs_path rs), Hook AfterGet (rs_path rs)])
     \<and> (prim_closeRead fs (rs_path rs) (backend s) = (Inl e, b) \<longrightarrow>
            fst (ReadStream_close fs rs s) = Inl e
          \<and> backend (snd (ReadStream_close fs rs s)) = b
          \<and> new_events s (snd (ReadStream_close fs rs s)) = [Prim PrimCloseRead (rs_path rs)])
     \<and> ReadStream_close fs (rs\<lparr>rs_handled := g\<rparr>) s = ReadStream_close fs rs s"
  using assms by (simp add: ReadStream_close_def io_defs new_events_def split: prod.splits)

text \<open>A stream that is closed without a read, and a stream whose \<^verbatim>\<open>_close\<close>
  fails after a read.\<close>

theorem ReadStream_close_notifies_witness:
  "new_events (start disk_file) (snd (ReadStream_close (mem_fs get_logger)
       \<lparr>rs_path = ''/a'', rs_options = no_options, rs_handled = False\<rparr> (start disk_file)))
     = [Prim PrimCloseRead ''/a'', Hook AfterGet ''/a'']
   \<and> fst (ReadStream_close failing_close_fs
       \<lparr>rs_path = ''/a'', rs_options = no_options, rs_handled = True\<rparr> (start disk_file))
     = Inl (Error NotReadableError ''mem'' ''/a'')
   \<and> new_events (start disk_file) (snd (ReadStream_close failing_close_fs
       \<lparr>rs_path = ''/a'', rs_options = no_options, rs_handled = True\<rparr> (start disk_file)))
     = [Prim PrimCloseRead ''/a'']"
proof -
  let ?rs = "\<lparr>rs_path = ''/a'', rs_options = no_options, rs_handled = False\<rparr>"
  let ?rt = "\<lparr>rs_path = ''/a'', rs_options = no_options, rs_handled = True\<rparr>"
  have h1: "\<not> ignoreHook (rs_options ?rs)" by (simp add: no_options_def)
  have h2: "afterGet (fs_hook (mem_fs get_logger)) = Some (\<lambda>p m. (Inr (), m))"
    by (simp add: mem_fs_def get_logger_def no_hook_def)
  have h3: "prim_closeRead (mem_fs get_logger) (rs_path ?rs) (backend (start disk_file))
      = (Inr (), disk_file)"
    by (simp add: mem_fs_def mem_closeRead_def start_def disk_file_def without_def)
  have k1: "\<not> ignoreHook (rs_options ?rt)" by (simp add: no_options_def)
  have k2: "afterGet (fs_hook failing_close_fs) = Some (\<lambda>p m. (Inr (), m))"
    by (simp add: failing_close_fs_def mem_fs_def get_logger_def no_hook_def)
  have k3: "prim_closeRead failing_close_fs (rs_path ?rt) (backend (start disk_file))
      = (Inl (Error NotReadableError ''mem'' ''/a''), disk_file)"
    by (simp add: failing_close_fs_def mem_fs_def start_def)
  from ReadStream_close_notifies [OF h1 h2, where s = "start disk_file" and b = disk_file] h3
  have c1: "new_events (start disk_file) (snd (ReadStream_close (mem_fs get_logger) ?rs (start disk_file)))
     = [Prim PrimCloseRead ''/a'', Hook AfterGet ''/a'']"
    by simp
  from ReadStream_close_notifies [OF k1 k2, where s = "start disk_file" and b = disk_file
         and e = "Error NotReadableError ''mem'' ''/a''"] k3
  have c2: "fst (ReadStream_close failing_close_fs ?rt (start disk_file))
       = Inl (Error NotReadableError ''mem'' ''/a'')
     \<and> new_events (start disk_file) (snd (ReadStream_close failing_close_fs ?rt (start disk_file)))
       = [Prim PrimCloseRead ''/a'']"
    by simp
  from c1 c2 show ?thesis by simp
qed

subsection \<open>Files and directories\<close>

text \<open>The test \<^verbatim>\<open>stats.size ? file : directory\<close> of core.ts is false for every
  \<^verbatim>\<open>Stats\<close> whose size is 0.\<close>

lemma entry_of_size_zero:
  "entry_of (st\<lparr>stats_size := Some 0\<rparr>) p = AbstractDirectory p"
  by (simp add: entry_of_def truthy_number_def)

text \<open>
  C8 claims that every entry whose \<^verbatim>\<open>Stats\<close> carry a size, the size 0 of an empty
  file included, is handled as a file. For the empty file \<^verbatim>\<open>/e\<close>, whose
  \<^verbatim>\<open>head\<close> gives size 0, \<^verbatim>\<open>_prepareXmit\<close> of core.ts builds directory handles
  for source and destination, and the copy then fails when it lists the file.
\<close>

theorem empty_file_is_taken_for_directory:
  "fst (head (mem_fs no_hook) ''/e'' no_options (start disk_empty_file))
     = Inr (no_stats\<lparr>stats_size := Some 0\<rparr>)
   \<and> fst (prepareXmit (mem_fs no_hook) ''/e'' ''/t'' (start disk_empty_file))
     = Inr (AbstractDirectory ''/e'', AbstractDirectory ''/t'')
   \<and> map_option fst (fs_copy 2 (mem_fs no_hook) ''/e'' ''/t'' no_options (start disk_empty_file))
     = Some (Inl (Error NotReadableError ''mem'' ''/e''))"
  by code_simp

end
